theory Spec2Isabelle
  imports Complex_Main "HOL-Library.Multiset" "HOL-Library.Char_ord" "HOL-Library.List_Lexorder"
begin

section \<open>Python values shared by the validation suite\<close>

text \<open>
  A Python \<open>str\<close> is modelled as a \<open>string\<close> whose characters are its code points
  (all below 256 here). An exception is an instance of a class derived from
  \<open>Exception\<close>, kept as its class name together with \<open>str(e)\<close>: what a fault in a
  check raises and what \<open>except Exception\<close> catches. \<open>KeyboardInterrupt\<close> and
  \<open>SystemExit\<close>, which do not derive from \<open>Exception\<close>, are not modelled.
\<close>

record exn =
  exn_type :: string
  exn_str :: string

definition TypeError :: "string \<Rightarrow> exn" where
  "TypeError m = \<lparr>exn_type = ''TypeError'', exn_str = m\<rparr>"

definition KeyError :: "string \<Rightarrow> exn" where
  "KeyError k = \<lparr>exn_type = ''KeyError'', exn_str = [CHR 0x27] @ k @ [CHR 0x27]\<rparr>"

definition ValueError :: "string \<Rightarrow> exn" where
  "ValueError m = \<lparr>exn_type = ''ValueError'', exn_str = m\<rparr>"

definition AttributeError :: "string \<Rightarrow> exn" where
  "AttributeError m = \<lparr>exn_type = ''AttributeError'', exn_str = m\<rparr>"

section \<open>models.py: the severity scale\<close>

datatype Severity = BLOCKER | MAJOR | MINOR | INFO

text \<open>\<open>Severity.X.value\<close>: the member's string.\<close>

fun Severity_value :: "Severity \<Rightarrow> string" where
  "Severity_value BLOCKER = ''BLOCKER''"
| "Severity_value MAJOR = ''MAJOR''"
| "Severity_value MINOR = ''MINOR''"
| "Severity_value INFO = ''INFO''"

text \<open>The enumeration in definition order, as \<open>for s in Severity\<close> iterates it.\<close>

definition Severity_members :: "Severity list" where
  "Severity_members = [BLOCKER, MAJOR, MINOR, INFO]"

text \<open>
  \<open>Severity[name]\<close>: lookup by member name, \<open>KeyError\<close> for any other string.
  \<open>name in Severity.__members__\<close> is \<open>Severity_has_member\<close>.
\<close>

definition Severity_has_member :: "string \<Rightarrow> bool" where
  "Severity_has_member n = (n \<in> set (map Severity_value Severity_members))"

definition Severity_getitem :: "string \<Rightarrow> exn + Severity" where
  "Severity_getitem n =
     (if n = ''BLOCKER'' then Inr BLOCKER
      else if n = ''MAJOR'' then Inr MAJOR
      else if n = ''MINOR'' then Inr MINOR
      else if n = ''INFO'' then Inr INFO
      else Inl (KeyError n))"

text \<open>\<open>list.index\<close>: position of the first equal element, \<open>None\<close> where Python raises \<open>ValueError\<close>.\<close>

fun list_index :: "'a list \<Rightarrow> 'a \<Rightarrow> nat option" where
  "list_index [] x = None"
| "list_index (y # ys) x =
     (if y = x then Some 0
      else (case list_index ys x of None \<Rightarrow> None | Some i \<Rightarrow> Some (Suc i)))"

text \<open>
  \<open>Severity.__lt__\<close>:
  \<^verbatim>\<open>
    order = [Severity.INFO, Severity.MINOR, Severity.MAJOR, Severity.BLOCKER]
    return order.index(self) < order.index(other)
  \<close>
\<close>

definition Severity_order :: "Severity list" where
  "Severity_order = [INFO, MINOR, MAJOR, BLOCKER]"

definition Severity_lt :: "Severity \<Rightarrow> Severity \<Rightarrow> exn + bool" where
  "Severity_lt self other =
     (case list_index Severity_order self of
        None \<Rightarrow> Inl (ValueError ''not in list'')
      | Some i \<Rightarrow>
          (case list_index Severity_order other of
             None \<Rightarrow> Inl (ValueError ''not in list'')
           | Some j \<Rightarrow> Inr (i < j)))"

text \<open>
  Sorting by a severity key, as \<open>sorted(findings, key=lambda f: f.severity)\<close> does it:
  Python's sort is stable and compares keys with \<open>__lt__\<close> only. It is modelled as a
  stable insertion sort that asks \<open>Severity_lt\<close> for every comparison and passes on
  whatever the comparison raises.
\<close>

fun insert_by_severity ::
  "('a \<Rightarrow> Severity) \<Rightarrow> 'a \<Rightarrow> 'a list \<Rightarrow> exn + 'a list" where
  "insert_by_severity key x [] = Inr [x]"
| "insert_by_severity key x (y # ys) =
     (case Severity_lt (key y) (key x) of
        Inl e \<Rightarrow> Inl e
      | Inr b \<Rightarrow>
          if b then
            (case insert_by_severity key x ys of
               Inl e \<Rightarrow> Inl e
             | Inr zs \<Rightarrow> Inr (y # zs))
          else Inr (x # y # ys))"

fun sorted_by_severity :: "('a \<Rightarrow> Severity) \<Rightarrow> 'a list \<Rightarrow> exn + 'a list" where
  "sorted_by_severity key [] = Inr []"
| "sorted_by_severity key (x # xs) =
     (case sorted_by_severity key xs of
        Inl e \<Rightarrow> Inl e
      | Inr ys \<Rightarrow> insert_by_severity key x ys)"

text \<open>The rank of a severity is its position in \<open>Severity_order\<close>.\<close>

fun Severity_rank :: "Severity \<Rightarrow> nat" where
  "Severity_rank INFO = 0"
| "Severity_rank MINOR = 1"
| "Severity_rank MAJOR = 2"
| "Severity_rank BLOCKER = 3"

section \<open>Python strings, values and the pandas frame\<close>

text \<open>\<open>str(n)\<close> for integers: decimal digits, a minus sign for negative numbers.\<close>

definition digits :: string where
  "digits = ''0123456789''"

function str_nat :: "nat \<Rightarrow> string" where
  "str_nat n = (if n < 10 then [digits ! n] else str_nat (n div 10) @ [digits ! (n mod 10)])"
  by pat_completeness auto
termination
  by (relation "measure id") auto

declare str_nat.simps [simp del]

definition str_int :: "int \<Rightarrow> string" where
  "str_int i = (if i < 0 then ''-'' @ str_nat (nat (- i)) else str_nat (nat i))"

text \<open>The apostrophe, and the accented letters of the suite's messages (Latin-1 code points).\<close>

definition apostrophe :: string where
  "apostrophe = [CHR 0x27]"

definition a_acute :: string where
  "a_acute = [CHR 0xE1]"

definition a_tilde :: string where
  "a_tilde = [CHR 0xE3]"

definition c_cedilla :: string where
  "c_cedilla = [CHR 0xE7]"

definition o_acute :: string where
  "o_acute = [CHR 0xF3]"

definition o_tilde :: string where
  "o_tilde = [CHR 0xF5]"

definition e_acute :: string where
  "e_acute = [CHR 0xE9]"

definition backslash :: string where
  "backslash = [CHR 0x5C]"

text \<open>
  \<open>str.isspace\<close> on one character, \<open>s.strip()\<close>, \<open>s.strip(chars)\<close> and
  \<open>s.replace(ch, '')\<close> for a single character \<open>ch\<close>.
\<close>

definition py_isspace :: "char \<Rightarrow> bool" where
  "py_isspace c = (c \<in> set [CHR 0x09, CHR 0x0A, CHR 0x0B, CHR 0x0C, CHR 0x0D, CHR 0x1C,
                            CHR 0x1D, CHR 0x1E, CHR 0x1F, CHR 0x20, CHR 0x85, CHR 0xA0])"

definition py_strip :: "string \<Rightarrow> string" where
  "py_strip s = rev (dropWhile py_isspace (rev (dropWhile py_isspace s)))"

definition py_strip_chars :: "string \<Rightarrow> string \<Rightarrow> string" where
  "py_strip_chars s chars =
     rev (dropWhile (\<lambda>c. c \<in> set chars) (rev (dropWhile (\<lambda>c. c \<in> set chars) s)))"

definition py_remove_char :: "string \<Rightarrow> char \<Rightarrow> string" where
  "py_remove_char s ch = filter (\<lambda>c. c \<noteq> ch) s"

text \<open>
  The values a details payload, a manifest entry or a dict-shaped finding can hold.
\<close>

datatype pyval =
    VNone
  | VBool bool
  | VInt int
  | VFloat real
  | VStr string
  | VSev Severity
  | VList "pyval list"
  | VDict "(string \<times> pyval) list"

text \<open>\<open>d.get(k, default)\<close> on a dict kept as an association list.\<close>

definition dict_get :: "('k \<times> 'v) list \<Rightarrow> 'k \<Rightarrow> 'v \<Rightarrow> 'v" where
  "dict_get d k dflt = (case map_of d k of None \<Rightarrow> dflt | Some v \<Rightarrow> v)"

text \<open>A cell of the frame is missing (\<open>pd.isna\<close>), a string or an integer.\<close>

datatype cell = NA | CStr string | CInt int

definition isna :: "cell \<Rightarrow> bool" where
  "isna v = (v = NA)"

definition cell_str :: "cell \<Rightarrow> string" where
  "cell_str v = (case v of NA \<Rightarrow> ''nan'' | CStr s \<Rightarrow> s | CInt i \<Rightarrow> str_int i)"

text \<open>
  What the suite calls and the repository does not define: regular-expression matching
  (\<open>re.match(pattern, s)\<close> finds a match, finds none, or raises on a bad pattern),
  \<open>repr\<close> of floats and containers, the text \<open>traceback.format_exc()\<close> returns while
  an exception is handled, the \<open>.1%\<close> number format, and \<open>str\<close> of a pandas Series
  (given as its labels and cells).
\<close>

record pylib =
  re_match :: "string \<Rightarrow> string \<Rightarrow> exn + bool"
  py_repr :: "pyval \<Rightarrow> string"
  format_exc :: "exn \<Rightarrow> string"
  format_percent :: "real \<Rightarrow> string"
  series_str :: "(int \<times> cell) list \<Rightarrow> string"

text \<open>\<open>str(v)\<close>.\<close>

definition py_str :: "pylib \<Rightarrow> pyval \<Rightarrow> string" where
  "py_str L v =
     (case v of
        VNone \<Rightarrow> ''None''
      | VBool b \<Rightarrow> (if b then ''True'' else ''False'')
      | VInt i \<Rightarrow> str_int i
      | VStr s \<Rightarrow> s
      | VSev s \<Rightarrow> ''Severity.'' @ Severity_value s
      | _ \<Rightarrow> py_repr L v)"

text \<open>
  A column has a name, a dtype name and its values; the frame has its row labels and its
  columns, in order. Neither the names of the columns nor the labels of the rows need be
  distinct.
\<close>

record Series =
  series_name :: string
  series_dtype :: string
  series_values :: "cell list"

record DataFrame =
  df_index :: "int list"
  df_series :: "Series list"

text \<open>\<open>len(df)\<close> and \<open>df.columns\<close>.\<close>

definition df_len :: "DataFrame \<Rightarrow> nat" where
  "df_len df = length (df_index df)"

definition df_columns :: "DataFrame \<Rightarrow> string list" where
  "df_columns df = map series_name (df_series df)"

text \<open>
  \<open>df[col]\<close>: \<open>KeyError\<close> when no column has that name, the column when exactly one has
  it; when several columns share the name pandas hands back a frame of them, on which
  the suite's uses of a column fail.
\<close>

datatype selection = OneColumn Series | SeveralColumns "Series list"

definition df_getitem :: "DataFrame \<Rightarrow> string \<Rightarrow> exn + selection" where
  "df_getitem df col =
     (case filter (\<lambda>s. series_name s = col) (df_series df) of
        [] \<Rightarrow> Inl (KeyError col)
      | [s] \<Rightarrow> Inr (OneColumn s)
      | s # t # rest \<Rightarrow> Inr (SeveralColumns (s # t # rest)))"

text \<open>
  Testing a pandas Series for truth (\<open>if pd.isna(val)\<close> where \<open>val\<close> is a whole column)
  and reading \<open>.dtype\<close> of a frame.
\<close>

definition ambiguous_truth :: exn where
  "ambiguous_truth = ValueError ''The truth value of a Series is ambiguous''"

definition no_dtype :: exn where
  "no_dtype = AttributeError ''DataFrame object has no attribute dtype''"

text \<open>
  \<open>s.items()\<close> for a column of the frame: label and cell, row by row. A column shorter
  than the index reads as missing below its end.
\<close>

definition cell_at :: "Series \<Rightarrow> nat \<Rightarrow> cell" where
  "cell_at s i = (if i < length (series_values s) then series_values s ! i else NA)"

definition series_items :: "DataFrame \<Rightarrow> Series \<Rightarrow> (int \<times> cell) list" where
  "series_items df s = map (\<lambda>i. (df_index df ! i, cell_at s i)) [0..<df_len df]"

text \<open>
  \<open>str(df.loc[i, col])\<close> for a column \<open>s\<close> of the frame: the rows are found by their
  label. One row gives its cell, several rows with that label give a Series of their
  cells, no row is a \<open>KeyError\<close>.
\<close>

definition df_loc_str :: "pylib \<Rightarrow> DataFrame \<Rightarrow> Series \<Rightarrow> int \<Rightarrow> exn + string" where
  "df_loc_str L df s i =
     (case filter (\<lambda>x. fst x = i) (series_items df s) of
        [] \<Rightarrow> Inl (KeyError (str_int i))
      | [x] \<Rightarrow> Inr (cell_str (snd x))
      | x # y # rest \<Rightarrow> Inr (series_str L (x # y # rest)))"

text \<open>\<open>[str(df.loc[i, col]) for i in labels]\<close>.\<close>

fun df_loc_strs :: "pylib \<Rightarrow> DataFrame \<Rightarrow> Series \<Rightarrow> int list \<Rightarrow> exn + string list" where
  "df_loc_strs L df s [] = Inr []"
| "df_loc_strs L df s (i # rest) =
     (case df_loc_str L df s i of
        Inl e \<Rightarrow> Inl e
      | Inr v \<Rightarrow>
          (case df_loc_strs L df s rest of
             Inl e \<Rightarrow> Inl e
           | Inr vs \<Rightarrow> Inr (v # vs)))"

text \<open>A row as \<open>df.apply(f, axis=1)\<close> hands it to \<open>f\<close>: the cells by column name.\<close>

definition df_rows :: "DataFrame \<Rightarrow> (int \<times> (string \<times> cell) list) list" where
  "df_rows df =
     map (\<lambda>i. (df_index df ! i, map (\<lambda>s. (series_name s, cell_at s i)) (df_series df)))
       [0..<df_len df]"

text \<open>
  The state a run works on: the frame, which every check receives by reference and can
  change in place, and the two clocks the suite reads (\<open>time.time()\<close> and
  \<open>time.perf_counter()\<close>).
\<close>

record world =
  frame :: DataFrame
  wall :: real
  perf :: real

section \<open>manifest.py: the configuration\<close>

record ColumnConfig =
  column_name :: string
  column_required :: bool
  column_type :: string
  column_aliases :: "string list"

record ConstraintConfig =
  constraint_type :: string
  constraint_pattern :: "string option"
  constraint_min_length :: "int option"
  constraint_max_length :: "int option"
  constraint_strip_chars :: "string option"
  constraint_allow_empty :: bool
  constraint_allow_special_values :: "string list"
  constraint_severity :: string

text \<open>\<open>hasattr(c, name)\<close> for a \<open>ConstraintConfig\<close>: the dataclass's fields.\<close>

definition ConstraintConfig_hasattr :: "string \<Rightarrow> bool" where
  "ConstraintConfig_hasattr a =
     (a \<in> set [''type'', ''pattern'', ''min_length'', ''max_length'', ''strip_chars'',
                ''allow_empty'', ''allow_special_values'', ''severity''])"

record VocabConfig =
  vocab_values :: "string list"
  vocab_case_sensitive :: bool
  vocab_allow_null :: bool
  vocab_severity :: string

record GeoConfig =
  geo_lat_field :: string
  geo_lon_field :: string
  geo_lat_min :: real
  geo_lat_max :: real
  geo_lon_min :: real
  geo_lon_max :: real
  geo_brazil_lat_min :: real
  geo_brazil_lat_max :: real
  geo_brazil_lon_min :: real
  geo_brazil_lon_max :: real
  geo_check_duplicates :: bool
  geo_id_column :: string

record CrossFieldConfig =
  cross_description :: string
  cross_field_a :: string
  cross_field_b :: string
  cross_mapping_file :: "string option"
  cross_rule :: "string option"
  cross_tolerance :: int
  cross_severity :: string

record ManifestConfig =
  input_file :: string
  source_type :: string
  sheet_name :: "string option"
  columns :: "ColumnConfig list"
  constraints :: "(string \<times> ConstraintConfig) list"
  controlled_vocab :: "(string \<times> VocabConfig) list"
  geospatial :: "GeoConfig option"
  cross_field :: "(string \<times> CrossFieldConfig) list"
  uniqueness_columns :: "string list"
  missingness :: "(string \<times> (string \<times> pyval) list) list"
  reports_dir :: string
  fu_to_state :: "(string \<times> string list) list"
  fu_to_region :: "(string \<times> string list) list"

text \<open>
  The dataclass constructor. \<open>input_file\<close> is declared without a default, every other
  field has one: \<open>ManifestConfig()\<close>, the call with no argument
  (\<open>None\<close> here), raises \<open>TypeError\<close>.
\<close>

definition ManifestConfig_init :: "string option \<Rightarrow> exn + ManifestConfig" where
  "ManifestConfig_init arg =
     (case arg of
        None \<Rightarrow>
          Inl (TypeError (''ManifestConfig.__init__() missing 1 required positional argument: ''
                 @ apostrophe @ ''input_file'' @ apostrophe))
      | Some f \<Rightarrow>
          Inr \<lparr>input_file = f, source_type = ''excel'', sheet_name = None, columns = [],
               constraints = [], controlled_vocab = [], geospatial = None, cross_field = [],
               uniqueness_columns = [], missingness = [], reports_dir = ''reports'',
               fu_to_state = [], fu_to_region = []\<rparr>)"

section \<open>models.py: findings, results and the report\<close>

record ValidationError =
  ve_severity :: Severity
  ve_category :: string
  ve_message :: string
  ve_row_indices :: "int list option"
  ve_column :: "string option"
  ve_expected :: pyval
  ve_actual :: pyval
  ve_details :: "(string \<times> pyval) list option"

text \<open>
  The buckets of a result are declared as lists of \<open>ValidationError\<close>, but the runner
  also appends a plain dict: an entry of a bucket is one or the other.
\<close>

datatype finding = Obj ValidationError | Dict "(string \<times> pyval) list"

record ValidationResult =
  vr_category :: string
  vr_passed :: bool
  vr_errors :: "finding list"
  vr_warnings :: "finding list"
  vr_info :: "finding list"
  vr_duration_seconds :: real

text \<open>
  The dataclass constructor with its defaults (\<open>duration_seconds = 0.0\<close>) when category,
  passed and the three buckets are given, as every caller in the suite does.
\<close>

definition ValidationResult_init ::
  "string \<Rightarrow> bool \<Rightarrow> finding list \<Rightarrow> finding list \<Rightarrow> finding list \<Rightarrow> ValidationResult" where
  "ValidationResult_init cat p es ws is =
     \<lparr>vr_category = cat, vr_passed = p, vr_errors = es, vr_warnings = ws, vr_info = is,
      vr_duration_seconds = 0\<rparr>"

definition total_issues :: "ValidationResult \<Rightarrow> nat" where
  "total_issues r = length (vr_errors r) + length (vr_warnings r) + length (vr_info r)"

record ValidationReport =
  rep_timestamp :: real
  rep_manifest_path :: string
  rep_data_file :: string
  rep_row_count :: nat
  rep_column_count :: nat
  rep_results :: "ValidationResult list"
  rep_data_quality :: "(string \<times> pyval) list"
  rep_duration_seconds :: real

text \<open>Python's \<open>all\<close> over the generated flags: it stops at the first false one.\<close>

fun py_all :: "bool list \<Rightarrow> bool" where
  "py_all [] = True"
| "py_all (b # bs) = (if b then py_all bs else False)"

text \<open>\<open>ValidationReport.passed\<close>: \<open>all(r.passed for r in self.results)\<close>.\<close>

definition passed :: "ValidationReport \<Rightarrow> bool" where
  "passed rep = py_all (map vr_passed (rep_results rep))"

definition total_checks :: "ValidationReport \<Rightarrow> nat" where
  "total_checks rep = length (rep_results rep)"

definition passed_checks :: "ValidationReport \<Rightarrow> nat" where
  "passed_checks rep = length (filter vr_passed (rep_results rep))"

definition failed_checks :: "ValidationReport \<Rightarrow> nat" where
  "failed_checks rep = total_checks rep - passed_checks rep"

text \<open>
  \<open>count_by_severity\<close>. For one entry of a bucket:
  \<^verbatim>\<open>
    severity = error.severity if hasattr(error, 'severity') else error.get('severity', 'UNKNOWN')
    if hasattr(severity, 'value'):
        counts[severity.value] += 1
    else:
        counts[str(severity)] = counts.get(str(severity), 0) + 1
  \<close>
  A \<open>ValidationError\<close> has the attribute \<open>severity\<close>, a dict has not; of the values
  here only a \<open>Severity\<close> member has the attribute \<open>value\<close>. \<open>counts[k] += 1\<close> raises
  \<open>KeyError\<close> when \<open>k\<close> is not a key.
\<close>

definition finding_severity :: "finding \<Rightarrow> pyval" where
  "finding_severity f =
     (case f of
        Obj e \<Rightarrow> VSev (ve_severity e)
      | Dict d \<Rightarrow> dict_get d ''severity'' (VStr ''UNKNOWN''))"

definition count_finding ::
  "pylib \<Rightarrow> (string \<rightharpoonup> int) \<Rightarrow> finding \<Rightarrow> exn + (string \<rightharpoonup> int)" where
  "count_finding L counts f =
     (case finding_severity f of
        VSev s \<Rightarrow>
          (case counts (Severity_value s) of
             None \<Rightarrow> Inl (KeyError (Severity_value s))
           | Some n \<Rightarrow> Inr (counts(Severity_value s \<mapsto> n + 1)))
      | v \<Rightarrow>
          Inr (counts(py_str L v \<mapsto> (case counts (py_str L v) of None \<Rightarrow> 0 | Some n \<Rightarrow> n) + 1)))"

fun count_findings ::
  "pylib \<Rightarrow> (string \<rightharpoonup> int) \<Rightarrow> finding list \<Rightarrow> exn + (string \<rightharpoonup> int)" where
  "count_findings L counts [] = Inr counts"
| "count_findings L counts (f # fs) =
     (case count_finding L counts f of
        Inl e \<Rightarrow> Inl e
      | Inr counts' \<Rightarrow> count_findings L counts' fs)"

text \<open>The loop over the results: errors, then warnings, then info of each result.\<close>

fun count_results ::
  "pylib \<Rightarrow> (string \<rightharpoonup> int) \<Rightarrow> ValidationResult list \<Rightarrow> exn + (string \<rightharpoonup> int)" where
  "count_results L counts [] = Inr counts"
| "count_results L counts (r # rs) =
     (case count_findings L counts (vr_errors r) of
        Inl e \<Rightarrow> Inl e
      | Inr c1 \<Rightarrow>
          (case count_findings L c1 (vr_warnings r) of
             Inl e \<Rightarrow> Inl e
           | Inr c2 \<Rightarrow>
               (case count_findings L c2 (vr_info r) of
                  Inl e \<Rightarrow> Inl e
                | Inr c3 \<Rightarrow> count_results L c3 rs)))"

text \<open>\<open>counts = {s.value: 0 for s in Severity}\<close>.\<close>

definition initial_counts :: "string \<rightharpoonup> int" where
  "initial_counts = map_of (map (\<lambda>s. (Severity_value s, 0)) Severity_members)"

definition count_by_severity :: "pylib \<Rightarrow> ValidationReport \<Rightarrow> exn + (string \<rightharpoonup> int)" where
  "count_by_severity L rep = count_results L initial_counts (rep_results rep)"

text \<open>\<open>has_blockers\<close>: \<open>self.count_by_severity()["BLOCKER"] > 0\<close>; \<open>has_majors\<close> alike.\<close>

definition has_severity :: "pylib \<Rightarrow> string \<Rightarrow> ValidationReport \<Rightarrow> exn + bool" where
  "has_severity L k rep =
     (case count_by_severity L rep of
        Inl e \<Rightarrow> Inl e
      | Inr counts \<Rightarrow>
          (case counts k of
             None \<Rightarrow> Inl (KeyError k)
           | Some n \<Rightarrow> Inr (n > 0)))"

definition has_blockers :: "pylib \<Rightarrow> ValidationReport \<Rightarrow> exn + bool" where
  "has_blockers L rep = has_severity L ''BLOCKER'' rep"

definition has_majors :: "pylib \<Rightarrow> ValidationReport \<Rightarrow> exn + bool" where
  "has_majors L rep = has_severity L ''MAJOR'' rep"

section \<open>checks/base.py: the check contract\<close>

text \<open>
  A check instance, as \<open>check_class()\<close> builds it: its name, its description and its
  \<open>run\<close> method (building the instance and reading the name do not raise). \<open>run\<close> receives the
  frame by reference, so it is a function of the state that returns the state it leaves
  behind, together with the result it returns or the exception it raises.
\<close>

record check =
  check_name :: string
  check_description :: string
  check_run :: "ManifestConfig \<Rightarrow> world \<Rightarrow> (exn + ValidationResult) \<times> world"

definition create_error ::
  "string \<Rightarrow> Severity \<Rightarrow> string \<Rightarrow> int list option \<Rightarrow> string option \<Rightarrow> pyval \<Rightarrow> pyval
   \<Rightarrow> (string \<times> pyval) list option \<Rightarrow> ValidationError" where
  "create_error name severity message row_indices column expected actual details =
     \<lparr>ve_severity = severity, ve_category = name, ve_message = message,
      ve_row_indices = row_indices, ve_column = column, ve_expected = expected,
      ve_actual = actual, ve_details = details\<rparr>"

text \<open>
  The closing statements of \<open>run\<close>, the same in each of the nine checks of the suite
  (schema, parsing, constraints, vocab, coherence, geospatial, uniqueness,
  reproducibility, perf), over the three lists the body has filled:
  \<^verbatim>\<open>
    passed = len(errors) == 0
    return ValidationResult(category=self.name, passed=passed, errors=errors,
                            warnings=warnings, info=info)
  \<close>
\<close>

definition check_result ::
  "string \<Rightarrow> ValidationError list \<Rightarrow> ValidationError list \<Rightarrow> ValidationError list
   \<Rightarrow> ValidationResult" where
  "check_result name errors warnings info =
     (let passed = (length errors = 0)
      in ValidationResult_init name passed (map Obj errors) (map Obj warnings) (map Obj info))"

text \<open>
  The one other \<open>return\<close> in a \<open>run\<close> method: the geospatial check when the frame has no
  latitude or no longitude column.
\<close>

definition GeospatialCheck_no_coordinates :: ValidationResult where
  "GeospatialCheck_no_coordinates =
     ValidationResult_init ''geospatial'' True [] []
       [Obj (create_error ''geospatial'' INFO
               (''Colunas de coordenadas n'' @ a_tilde @ ''o encontradas'')
               None None VNone VNone None)]"

text \<open>
  \<open>validate_rows\<close>: the labels of the rows on which the condition is false; one finding
  when there is any, with the first 100 labels.
\<close>

fun invalid_rows ::
  "((string \<times> cell) list \<Rightarrow> exn + bool) \<Rightarrow> (int \<times> (string \<times> cell) list) list \<Rightarrow> exn + int list" where
  "invalid_rows condition_func [] = Inr []"
| "invalid_rows condition_func ((idx, row) # rest) =
     (case condition_func row of
        Inl e \<Rightarrow> Inl e
      | Inr ok \<Rightarrow>
          (case invalid_rows condition_func rest of
             Inl e \<Rightarrow> Inl e
           | Inr is \<Rightarrow> Inr (if ok then is else idx # is)))"

definition validate_rows ::
  "string \<Rightarrow> DataFrame \<Rightarrow> ((string \<times> cell) list \<Rightarrow> exn + bool) \<Rightarrow> string \<Rightarrow> Severity
   \<Rightarrow> string option \<Rightarrow> exn + ValidationError list" where
  "validate_rows name df condition_func error_message severity column =
     (case invalid_rows condition_func (df_rows df) of
        Inl e \<Rightarrow> Inl e
      | Inr invalid_indices \<Rightarrow>
          Inr (if invalid_indices \<noteq> [] then
                 [create_error name severity
                    (error_message @ '' ('' @ str_nat (length invalid_indices) @ '' linhas)'')
                    (Some (take 100 invalid_indices)) column VNone VNone None]
               else []))"

text \<open>
  \<open>timed_run\<close>:
  \<^verbatim>\<open>
    start = time.time()
    result = self.run(df, config)
    result.duration_seconds = time.time() - start
    return result
  \<close>
\<close>

definition timed_run :: "check \<Rightarrow> ManifestConfig \<Rightarrow> world \<Rightarrow> (exn + ValidationResult) \<times> world" where
  "timed_run c config w =
     (let start = wall w;
          (out, w') = check_run c config w
      in case out of
           Inl e \<Rightarrow> (Inl e, w')
         | Inr result \<Rightarrow> (Inr (result\<lparr>vr_duration_seconds := wall w' - start\<rparr>), w'))"

section \<open>runner.py: the runner\<close>

record ValidationRunner =
  config :: ManifestConfig
  checks :: "check list"
  skip_checks :: "string list"

text \<open>
  \<open>__init__\<close>:
  \<^verbatim>\<open>
    self.config = config or ManifestConfig()
    self.checks = checks or ALL_CHECKS
    self.skip_checks = skip_checks or []
  \<close>
  A config object is truthy, so \<open>config or ManifestConfig()\<close> calls the constructor
  exactly when no config is given; an empty list is falsy, so an empty check list is
  replaced by \<open>ALL_CHECKS\<close> (a parameter here) as a missing one is.
\<close>

definition ValidationRunner_init ::
  "check list \<Rightarrow> ManifestConfig option \<Rightarrow> check list option \<Rightarrow> string list option
   \<Rightarrow> exn + ValidationRunner" where
  "ValidationRunner_init ALL_CHECKS cfg chks skip =
     (case (case cfg of None \<Rightarrow> ManifestConfig_init None | Some c \<Rightarrow> Inr c) of
        Inl e \<Rightarrow> Inl e
      | Inr c \<Rightarrow>
          Inr \<lparr>config = c,
               checks = (case chks of None \<Rightarrow> ALL_CHECKS
                         | Some cs \<Rightarrow> if cs = [] then ALL_CHECKS else cs),
               skip_checks = (case skip of None \<Rightarrow> [] | Some s \<Rightarrow> s)\<rparr>)"

text \<open>The result the runner builds in its \<open>except Exception\<close> branch.\<close>

definition fault_result :: "pylib \<Rightarrow> check \<Rightarrow> exn \<Rightarrow> ValidationResult" where
  "fault_result L c e =
     ValidationResult_init (check_name c) False
       [Dict [(''severity'', VStr (Severity_value BLOCKER)),
              (''message'',
                 VStr (''Erro na execu'' @ c_cedilla @ a_tilde @ ''o do check: '' @ exn_str e)),
              (''details'',
                 VDict [(''exception'', VStr (exn_type e)),
                        (''traceback'', VStr (format_exc L e))])]]
       [] []"

text \<open>
  The loop of \<open>run\<close> over the registered checks, with the results gathered so far and
  the state:
  \<^verbatim>\<open>
    for check_class in self.checks:
        check = check_class()
        if check.name in self.skip_checks:
            continue
        try:
            result = check.timed_run(df, self.config)
            results.append(result)
        except Exception as e:
            ...
            results.append(ValidationResult(category=check.name, passed=False, ...))
  \<close>
\<close>

fun run_checks ::
  "pylib \<Rightarrow> ManifestConfig \<Rightarrow> string list \<Rightarrow> check list \<Rightarrow> ValidationResult list \<Rightarrow> world
   \<Rightarrow> ValidationResult list \<times> world" where
  "run_checks L cfg skip [] results w = (results, w)"
| "run_checks L cfg skip (c # cs) results w =
     (if check_name c \<in> set skip then run_checks L cfg skip cs results w
      else
        (case timed_run c cfg w of
           (Inr result, w') \<Rightarrow> run_checks L cfg skip cs (results @ [result]) w'
         | (Inl e, w') \<Rightarrow> run_checks L cfg skip cs (results @ [fault_result L c e]) w'))"

text \<open>
  \<open>round(total_time, 3)\<close>, on reals: the nearest multiple of 0.001 (floating-point
  rounding is not modelled; no statement below depends on a duration).
\<close>

definition round3 :: "real \<Rightarrow> real" where
  "round3 x = real_of_int (round (x * 1000)) / 1000"

text \<open>
  \<open>run\<close>. The counts of the report are \<open>len(df)\<close> and \<open>len(df.columns)\<close> evaluated in the
  \<open>return\<close> statement, after the loop; \<open>datetime.now()\<close> is read from the wall clock.
\<close>

definition run :: "pylib \<Rightarrow> ValidationRunner \<Rightarrow> world \<Rightarrow> ValidationReport \<times> world" where
  "run L R w =
     (let start_time = perf w;
          (results, w') = run_checks L (config R) (skip_checks R) (checks R) [] w;
          total_time = perf w' - start_time
      in (\<lparr>rep_timestamp = wall w',
            rep_manifest_path = '''',
            rep_data_file = (if input_file (config R) = '''' then ''unknown''
                             else input_file (config R)),
            rep_row_count = df_len (frame w'),
            rep_column_count = length (df_columns (frame w')),
            rep_results = results,
            rep_data_quality = [],
            rep_duration_seconds = round3 total_time\<rparr>, w'))"

text \<open>
  \<open>run_validation\<close>, the convenience entry point. Reading the manifest and the data
  file are parameters; \<open>if manifest_path:\<close> is false for \<open>None\<close> and for the empty string.
\<close>

definition run_validation ::
  "pylib \<Rightarrow> check list \<Rightarrow> (string \<Rightarrow> exn + ManifestConfig)
   \<Rightarrow> (string \<Rightarrow> ManifestConfig \<Rightarrow> exn + DataFrame)
   \<Rightarrow> string \<Rightarrow> string option \<Rightarrow> string list option \<Rightarrow> world
   \<Rightarrow> exn + (ValidationReport \<times> world)" where
  "run_validation L ALL_CHECKS load_manifest load_dataframe file_path manifest_path skip w =
     (case (case manifest_path of
              None \<Rightarrow> ManifestConfig_init None
            | Some p \<Rightarrow> if p = '''' then ManifestConfig_init None else load_manifest p) of
        Inl e \<Rightarrow> Inl e
      | Inr cfg0 \<Rightarrow>
          (let cfg = cfg0\<lparr>input_file := file_path\<rparr> in
           case load_dataframe file_path cfg of
             Inl e \<Rightarrow> Inl e
           | Inr df \<Rightarrow>
               (case ValidationRunner_init ALL_CHECKS (Some cfg) None skip of
                  Inl e \<Rightarrow> Inl e
                | Inr runner \<Rightarrow> Inr (run L runner (w\<lparr>frame := df\<rparr>)))))"

text \<open>
  The executions of a run: each check that is not skipped, in registration order, paired
  with the state in which its \<open>timed_run\<close> is called.
\<close>

fun executions ::
  "ManifestConfig \<Rightarrow> string list \<Rightarrow> check list \<Rightarrow> world \<Rightarrow> (check \<times> world) list" where
  "executions cfg skip [] w = []"
| "executions cfg skip (c # cs) w =
     (if check_name c \<in> set skip then executions cfg skip cs w
      else (c, w) # executions cfg skip cs (snd (timed_run c cfg w)))"

text \<open>What one execution adds to the results: the check's own result, or the fault result.\<close>

definition execution_result :: "pylib \<Rightarrow> ManifestConfig \<Rightarrow> check \<times> world \<Rightarrow> ValidationResult" where
  "execution_result L cfg x =
     (case fst (timed_run (fst x) cfg (snd x)) of
        Inr result \<Rightarrow> result
      | Inl e \<Rightarrow> fault_result L (fst x) e)"

text \<open>The state a run ends in.\<close>

fun final_world :: "ManifestConfig \<Rightarrow> string list \<Rightarrow> check list \<Rightarrow> world \<Rightarrow> world" where
  "final_world cfg skip [] w = w"
| "final_world cfg skip (c # cs) w =
     (if check_name c \<in> set skip then final_world cfg skip cs w
      else final_world cfg skip cs (snd (timed_run c cfg w)))"

section \<open>checks/constraints.py: the constraints check\<close>

text \<open>The three lists a helper of a check hands back under the keys errors, warnings and info.\<close>

record buckets =
  b_errors :: "ValidationError list"
  b_warnings :: "ValidationError list"
  b_info :: "ValidationError list"

definition empty_buckets :: buckets where
  "empty_buckets = \<lparr>b_errors = [], b_warnings = [], b_info = []\<rparr>"

text \<open>\<open>clean_cnes\<close>: every strip character is removed, then surrounding whitespace.\<close>

definition clean_cnes :: "string \<Rightarrow> string \<Rightarrow> string" where
  "clean_cnes val strip_chars = py_strip (foldl py_remove_char val strip_chars)"

text \<open>
  \<open>config.constraints.get(name)\<close>, read only when \<open>config.constraints\<close> is not empty.
\<close>

definition config_constraint :: "ManifestConfig \<Rightarrow> string \<Rightarrow> ConstraintConfig option" where
  "config_constraint cfg name =
     (if constraints cfg \<noteq> [] then map_of (constraints cfg) name else None)"

text \<open>\<open>re.match\<close> with a pattern that may be \<open>None\<close>, which is a \<open>TypeError\<close>.\<close>

definition re_match_opt :: "pylib \<Rightarrow> string option \<Rightarrow> string \<Rightarrow> exn + bool" where
  "re_match_opt L pattern s =
     (case pattern of
        None \<Rightarrow> Inl (TypeError ''first argument must be string or compiled pattern'')
      | Some p \<Rightarrow> re_match L p s)"

text \<open>
  The severity of the CNES finding:
  \<^verbatim>\<open>
    sev_str = cnes_config.severity if cnes_config and hasattr(cnes_config, 'severity') else 'MAJOR'
    try:
        severity = Severity[sev_str] if sev_str in Severity.__members__ else Severity.MAJOR
    except (KeyError, AttributeError):
        severity = Severity.MAJOR
  \<close>
\<close>

definition cnes_severity :: "ConstraintConfig option \<Rightarrow> Severity" where
  "cnes_severity cnes_config =
     (let sev_str = (case cnes_config of
                       None \<Rightarrow> ''MAJOR''
                     | Some c \<Rightarrow> if ConstraintConfig_hasattr ''severity''
                                then constraint_severity c else ''MAJOR'')
      in if Severity_has_member sev_str
         then (case Severity_getitem sev_str of Inr s \<Rightarrow> s | Inl e \<Rightarrow> MAJOR)
         else MAJOR)"

text \<open>
  The loop of \<open>_validate_cnes\<close> over the column: it gathers the labels of the rows whose
  cleaned value does not match the pattern and the labels of the rows holding an allowed
  special value.
\<close>

fun cnes_scan ::
  "pylib \<Rightarrow> string list \<Rightarrow> string \<Rightarrow> string \<Rightarrow> (int \<times> cell) list
   \<Rightarrow> exn + (int list \<times> int list)" where
  "cnes_scan L special_values strip_chars pattern [] = Inr ([], [])"
| "cnes_scan L special_values strip_chars pattern ((idx, val) # rest) =
     (if isna val then cnes_scan L special_values strip_chars pattern rest
      else if cell_str val \<in> set special_values
              \<or> clean_cnes (cell_str val) strip_chars \<in> set special_values
      then (case cnes_scan L special_values strip_chars pattern rest of
              Inl e \<Rightarrow> Inl e
            | Inr (invalid, special) \<Rightarrow> Inr (invalid, idx # special))
      else (case re_match L pattern (clean_cnes (cell_str val) strip_chars) of
              Inl e \<Rightarrow> Inl e
            | Inr matched \<Rightarrow>
                (case cnes_scan L special_values strip_chars pattern rest of
                   Inl e \<Rightarrow> Inl e
                 | Inr (invalid, special) \<Rightarrow>
                     Inr (if matched then invalid else idx # invalid, special))))"

text \<open>
  The settings of \<open>_validate_cnes\<close>: the CNES entry of the manifest where it has one, the
  defaults otherwise. A \<open>ConstraintConfig\<close> has no attribute \<open>special_values\<close> (its field
  is \<open>allow_special_values\<close>), so the special values are always the two defaults.
\<close>

definition cnes_special_values :: "ManifestConfig \<Rightarrow> string list" where
  "cnes_special_values cfg =
     (if config_constraint cfg ''CNES'' \<noteq> None \<and> ConstraintConfig_hasattr ''special_values''
      then [] else [''Not informed'', ''Not informed1-4''])"

definition cnes_strip_chars :: "ManifestConfig \<Rightarrow> string" where
  "cnes_strip_chars cfg =
     (case config_constraint cfg ''CNES'' of
        None \<Rightarrow> [CHR 0x09, CHR 0x20, CHR 0x0A]
      | Some c \<Rightarrow>
          (case constraint_strip_chars c of
             None \<Rightarrow> [CHR 0x09, CHR 0x20, CHR 0x0A]
           | Some sc \<Rightarrow> if ConstraintConfig_hasattr ''strip_chars'' \<and> sc \<noteq> '''' then sc
                       else [CHR 0x09, CHR 0x20, CHR 0x0A]))"

definition cnes_pattern :: "ManifestConfig \<Rightarrow> string" where
  "cnes_pattern cfg =
     (case config_constraint cfg ''CNES'' of
        None \<Rightarrow> ''^'' @ backslash @ ''d{6,8}$''
      | Some c \<Rightarrow>
          (case constraint_pattern c of
             None \<Rightarrow> ''^'' @ backslash @ ''d{6,8}$''
           | Some p \<Rightarrow> if ConstraintConfig_hasattr ''pattern'' \<and> p \<noteq> '''' then p
                      else ''^'' @ backslash @ ''d{6,8}$''))"

text \<open>
  \<open>_validate_cnes\<close>. When several columns are named CNES, the loop variable is a whole
  column and \<open>if pd.isna(val)\<close> raises. The sample of invalid values is read back by
  label, \<open>str(df.loc[i, 'CNES'])\<close> for the first five labels.
\<close>

definition validate_cnes :: "pylib \<Rightarrow> DataFrame \<Rightarrow> ManifestConfig \<Rightarrow> exn + buckets" where
  "validate_cnes L df cfg =
     (case df_getitem df ''CNES'' of
        Inl e \<Rightarrow> Inl e
      | Inr (SeveralColumns cols) \<Rightarrow> Inl ambiguous_truth
      | Inr (OneColumn col) \<Rightarrow>
          (case cnes_scan L (cnes_special_values cfg) (cnes_strip_chars cfg) (cnes_pattern cfg)
                  (series_items df col) of
             Inl e \<Rightarrow> Inl e
           | Inr (invalid, special) \<Rightarrow>
               (case (if invalid \<noteq> [] then df_loc_strs L df col (take 5 invalid)
                      else Inr []) of
                  Inl e \<Rightarrow> Inl e
                | Inr sample_invalid \<Rightarrow>
                    (let severity = cnes_severity (config_constraint cfg ''CNES'');
                         finding =
                           create_error ''constraints'' severity
                             (''CNES com formato inv'' @ a_acute @ ''lido (''
                                @ str_nat (length invalid) @ '' registros)'')
                             (Some (take 50 invalid)) (Some ''CNES'') VNone VNone
                             (Some [(''pattern'', VStr (cnes_pattern cfg)),
                                    (''sample_invalid'', VList (map VStr sample_invalid))]);
                         special_finding =
                           create_error ''constraints'' INFO
                             (''CNES com valores especiais permitidos (''
                                @ str_nat (length special) @ '' registros)'')
                             (Some (take 20 special)) (Some ''CNES'') VNone VNone None
                     in Inr \<lparr>b_errors =
                                (if invalid \<noteq> [] \<and> severity \<in> set [BLOCKER, MAJOR]
                                 then [finding] else []),
                              b_warnings =
                                (if invalid \<noteq> [] \<and> severity \<notin> set [BLOCKER, MAJOR]
                                 then [finding] else []),
                              b_info =
                                (if special \<noteq> [] then [special_finding] else [])\<rparr>))))"

text \<open>The loop of \<open>_validate_telefone\<close>: the labels of the invalid rows and of the empty rows.\<close>

fun telefone_scan ::
  "pylib \<Rightarrow> string list \<Rightarrow> string option \<Rightarrow> (int \<times> cell) list
   \<Rightarrow> exn + (int list \<times> int list)" where
  "telefone_scan L special_values pattern [] = Inr ([], [])"
| "telefone_scan L special_values pattern ((idx, val) # rest) =
     (if isna val \<or> py_strip (cell_str val) = ''''
      then (case telefone_scan L special_values pattern rest of
              Inl e \<Rightarrow> Inl e
            | Inr (invalid, empties) \<Rightarrow> Inr (invalid, idx # empties))
      else if py_strip (cell_str val) \<in> set special_values
      then telefone_scan L special_values pattern rest
      else (case re_match_opt L pattern (py_strip (cell_str val)) of
              Inl e \<Rightarrow> Inl e
            | Inr matched \<Rightarrow>
                (case telefone_scan L special_values pattern rest of
                   Inl e \<Rightarrow> Inl e
                 | Inr (invalid, empties) \<Rightarrow>
                     Inr (if matched then invalid else idx # invalid, empties))))"

definition validate_telefone :: "pylib \<Rightarrow> DataFrame \<Rightarrow> ManifestConfig \<Rightarrow> exn + buckets" where
  "validate_telefone L df cfg =
     (let tel_config = config_constraint cfg ''Telefone'';
          special_values =
            (case tel_config of
               None \<Rightarrow> [''Sem contato'']
             | Some c \<Rightarrow> if ConstraintConfig_hasattr ''allow_special_values''
                        then constraint_allow_special_values c else [''Sem contato'']);
          pattern =
            (case tel_config of
               None \<Rightarrow> Some (''^['' @ backslash @ ''d'' @ backslash @ ''s'' @ backslash @ ''-''
                              @ backslash @ ''('' @ backslash @ '')'' @ backslash @ ''/''
                              @ backslash @ ''+]+$'')
             | Some c \<Rightarrow> if ConstraintConfig_hasattr ''pattern'' then constraint_pattern c
                        else Some (''^['' @ backslash @ ''d'' @ backslash @ ''s'' @ backslash @ ''-''
                              @ backslash @ ''('' @ backslash @ '')'' @ backslash @ ''/''
                              @ backslash @ ''+]+$''))
      in case df_getitem df ''Telefone'' of
           Inl e \<Rightarrow> Inl e
         | Inr (SeveralColumns cols) \<Rightarrow> Inl ambiguous_truth
         | Inr (OneColumn col) \<Rightarrow>
             (case telefone_scan L special_values pattern (series_items df col) of
                Inl e \<Rightarrow> Inl e
              | Inr (invalid, empties) \<Rightarrow>
                  (case (if invalid \<noteq> [] then df_loc_strs L df col (take 5 invalid)
                         else Inr []) of
                     Inl e \<Rightarrow> Inl e
                   | Inr sample_invalid \<Rightarrow>
                       Inr \<lparr>b_errors = [],
                            b_warnings =
                              (if invalid \<noteq> [] then
                                 [create_error ''constraints'' MINOR
                                    (''Telefones com formato inv'' @ a_acute @ ''lido (''
                                       @ str_nat (length invalid) @ '' registros)'')
                                    (Some (take 30 invalid)) (Some ''Telefone'') VNone VNone
                                    (Some [(''sample_invalid'',
                                             VList (map VStr sample_invalid))])]
                               else []),
                            b_info =
                              (if empties \<noteq> [] then
                                 [create_error ''constraints'' INFO
                                    (''Telefones vazios/nulos ('' @ str_nat (length empties)
                                       @ '' registros)'')
                                    (Some (take 20 empties)) (Some ''Telefone'') VNone VNone None]
                               else [])\<rparr>)))"

text \<open>The loop of \<open>_validate_pattern\<close>: the labels of the rows that do not match.\<close>

fun pattern_scan :: "pylib \<Rightarrow> ConstraintConfig \<Rightarrow> (int \<times> cell) list \<Rightarrow> exn + int list" where
  "pattern_scan L constraint [] = Inr []"
| "pattern_scan L constraint ((idx, val) # rest) =
     (if isna val
      then (case pattern_scan L constraint rest of
              Inl e \<Rightarrow> Inl e
            | Inr invalid \<Rightarrow>
                Inr (if \<not> constraint_allow_empty constraint then idx # invalid else invalid))
      else (case re_match_opt L (constraint_pattern constraint)
                   (case constraint_strip_chars constraint of
                      None \<Rightarrow> cell_str val
                    | Some sc \<Rightarrow> if sc \<noteq> '''' then py_strip_chars (cell_str val) sc
                                else cell_str val) of
              Inl e \<Rightarrow> Inl e
            | Inr matched \<Rightarrow>
                (case pattern_scan L constraint rest of
                   Inl e \<Rightarrow> Inl e
                 | Inr invalid \<Rightarrow> Inr (if matched then invalid else idx # invalid))))"

text \<open>
  \<open>_validate_pattern\<close>. The severity of its finding is \<open>Severity[constraint.severity]\<close>,
  with no test of membership before it and no handler around it.
\<close>

definition validate_pattern ::
  "pylib \<Rightarrow> DataFrame \<Rightarrow> string \<Rightarrow> ConstraintConfig \<Rightarrow> exn + ValidationError list" where
  "validate_pattern L df col_name constraint =
     (case df_getitem df col_name of
        Inl e \<Rightarrow> Inl e
      | Inr (SeveralColumns cols) \<Rightarrow> Inl ambiguous_truth
      | Inr (OneColumn col) \<Rightarrow>
          (case pattern_scan L constraint (series_items df col) of
             Inl e \<Rightarrow> Inl e
           | Inr invalid_indices \<Rightarrow>
               if invalid_indices \<noteq> [] then
                 (case Severity_getitem (constraint_severity constraint) of
                    Inl e \<Rightarrow> Inl e
                  | Inr severity \<Rightarrow>
                      Inr [create_error ''constraints'' severity
                             (apostrophe @ col_name @ apostrophe @ '' com formato inv'' @ a_acute
                                @ ''lido ('' @ str_nat (length invalid_indices) @ '' registros)'')
                             (Some (take 50 invalid_indices)) (Some col_name) VNone VNone
                             (Some [(''pattern'',
                                      (case constraint_pattern constraint of
                                         None \<Rightarrow> VNone | Some p \<Rightarrow> VStr p))])])
               else Inr []))"

text \<open>
  The loop of \<open>run\<close> over \<open>config.constraints.items()\<close>, with the lists of the run so far.
\<close>

fun pattern_loop ::
  "pylib \<Rightarrow> DataFrame \<Rightarrow> (string \<times> ConstraintConfig) list \<Rightarrow> buckets \<Rightarrow> exn + buckets" where
  "pattern_loop L df [] acc = Inr acc"
| "pattern_loop L df ((col_name, constraint) # rest) acc =
     (if col_name \<in> set [''CNES'', ''Telefone''] then pattern_loop L df rest acc
      else if col_name \<in> set (df_columns df) \<and> ConstraintConfig_hasattr ''pattern''
              \<and> constraint_pattern constraint \<noteq> None
              \<and> constraint_pattern constraint \<noteq> Some ''''
      then (case validate_pattern L df col_name constraint of
              Inl e \<Rightarrow> Inl e
            | Inr pattern_result \<Rightarrow>
                pattern_loop L df rest
                  (if constraint_severity constraint = ''BLOCKER''
                   then acc\<lparr>b_errors := b_errors acc @ pattern_result\<rparr>
                   else if constraint_severity constraint = ''MAJOR''
                   then acc\<lparr>b_errors := b_errors acc @ pattern_result\<rparr>
                   else if constraint_severity constraint = ''MINOR''
                   then acc\<lparr>b_warnings := b_warnings acc @ pattern_result\<rparr>
                   else acc\<lparr>b_info := b_info acc @ pattern_result\<rparr>))
      else pattern_loop L df rest acc)"

text \<open>
  \<open>_check_missingness\<close>. A number of the manifest is an int, a float or a bool; comparing
  a rate with anything else raises \<open>TypeError\<close>, and so does looking an unhashable value
  up in \<open>Severity.__members__\<close>.
\<close>

definition py_number :: "pyval \<Rightarrow> real option" where
  "py_number v =
     (case v of
        VInt i \<Rightarrow> Some (real_of_int i)
      | VFloat r \<Rightarrow> Some r
      | VBool b \<Rightarrow> Some (if b then 1 else 0)
      | _ \<Rightarrow> None)"

text \<open>
  \<^verbatim>\<open>
    try:
        sev_enum = Severity[severity] if severity in Severity.__members__ else Severity.INFO
    except (KeyError, AttributeError):
        sev_enum = Severity.INFO
  \<close>
\<close>

definition missingness_severity :: "pyval \<Rightarrow> exn + Severity" where
  "missingness_severity severity =
     (case severity of
        VStr s \<Rightarrow>
          Inr (if Severity_has_member s
               then (case Severity_getitem s of Inr x \<Rightarrow> x | Inl e \<Rightarrow> INFO)
               else INFO)
      | VList xs \<Rightarrow> Inl (TypeError ''unhashable type: list'')
      | VDict d \<Rightarrow> Inl (TypeError ''unhashable type: dict'')
      | _ \<Rightarrow> Inr INFO)"

text \<open>
  \<open>df[col].isna().sum()\<close> and the rate \<open>null_count / len(df) if len(df) > 0 else 0\<close>. For
  several columns of one name the sum is a Series with one count for each of them, and
  so is the rate when the frame has rows (\<open>None\<close> here); comparing that rate and testing
  the outcome raises.
\<close>

definition null_count_of :: "DataFrame \<Rightarrow> Series \<Rightarrow> nat" where
  "null_count_of df s = length (filter (\<lambda>x. isna (snd x)) (series_items df s))"

definition null_count_value :: "DataFrame \<Rightarrow> selection \<Rightarrow> pyval" where
  "null_count_value df sel =
     (case sel of
        OneColumn s \<Rightarrow> VInt (int (null_count_of df s))
      | SeveralColumns cols \<Rightarrow> VList (map (\<lambda>s. VInt (int (null_count_of df s))) cols))"

definition null_rate_of :: "DataFrame \<Rightarrow> selection \<Rightarrow> real option" where
  "null_rate_of df sel =
     (if df_len df > 0 then
        (case sel of
           OneColumn s \<Rightarrow> Some (real (null_count_of df s) / real (df_len df))
         | SeveralColumns cols \<Rightarrow> None)
      else Some 0)"

fun missingness_loop ::
  "pylib \<Rightarrow> DataFrame \<Rightarrow> (string \<times> (string \<times> pyval) list) list \<Rightarrow> string list \<Rightarrow> buckets
   \<Rightarrow> exn + buckets" where
  "missingness_loop L df missingness_config [] acc = Inr acc"
| "missingness_loop L df missingness_config (col # rest) acc =
     (case df_getitem df col of
        Inl e \<Rightarrow> Inl e
      | Inr sel \<Rightarrow>
          (let miss_config = dict_get missingness_config col [];
               max_rate = dict_get miss_config ''max_null_rate'' (VFloat 1);
               severity = dict_get miss_config ''severity'' (VStr ''INFO'')
           in case py_number max_rate of
                None \<Rightarrow> Inl (TypeError ''> not supported between these instances'')
              | Some m \<Rightarrow>
                  (case null_rate_of df sel of
                     None \<Rightarrow> Inl ambiguous_truth
                   | Some null_rate \<Rightarrow>
                       if null_rate > m then
                         (case missingness_severity severity of
                            Inl e \<Rightarrow> Inl e
                          | Inr sev_enum \<Rightarrow>
                              (let error =
                                 create_error ''constraints'' sev_enum
                                   (apostrophe @ col @ apostrophe @ '' tem ''
                                      @ format_percent L null_rate
                                      @ '' nulos (m'' @ a_acute @ ''ximo: ''
                                      @ format_percent L m @ '')'')
                                   None (Some col) VNone VNone
                                   (Some [(''null_count'', null_count_value df sel),
                                          (''null_rate'',
                                             (if df_len df > 0 then VFloat null_rate
                                              else VInt 0)),
                                          (''max_rate'', max_rate)])
                               in missingness_loop L df missingness_config rest
                                    (if severity = VStr ''BLOCKER''
                                     then acc\<lparr>b_errors := b_errors acc @ [error]\<rparr>
                                     else if severity = VStr ''MAJOR''
                                     then acc\<lparr>b_errors := b_errors acc @ [error]\<rparr>
                                     else if severity = VStr ''MINOR''
                                     then acc\<lparr>b_warnings := b_warnings acc @ [error]\<rparr>
                                     else acc\<lparr>b_info := b_info acc @ [error]\<rparr>)))
                       else missingness_loop L df missingness_config rest acc)))"

definition check_missingness :: "pylib \<Rightarrow> DataFrame \<Rightarrow> ManifestConfig \<Rightarrow> exn + buckets" where
  "check_missingness L df cfg =
     missingness_loop L df (missingness cfg) (df_columns df) empty_buckets"

text \<open>
  \<open>ConstraintsCheck.run\<close>: CNES, telephone, the other constraints that have a pattern,
  missingness; then the closing statements.
\<close>

definition ConstraintsCheck_run ::
  "pylib \<Rightarrow> DataFrame \<Rightarrow> ManifestConfig \<Rightarrow> exn + ValidationResult" where
  "ConstraintsCheck_run L df cfg =
     (case (if ''CNES'' \<in> set (df_columns df) then validate_cnes L df cfg
            else Inr empty_buckets) of
        Inl e \<Rightarrow> Inl e
      | Inr cnes_result \<Rightarrow>
          (case (if ''Telefone'' \<in> set (df_columns df) then validate_telefone L df cfg
                 else Inr empty_buckets) of
             Inl e \<Rightarrow> Inl e
           | Inr tel_result \<Rightarrow>
               (case (if constraints cfg \<noteq> []
                      then pattern_loop L df (constraints cfg)
                             \<lparr>b_errors = b_errors cnes_result,
                              b_warnings = b_warnings cnes_result @ b_warnings tel_result,
                              b_info = b_info cnes_result @ b_info tel_result\<rparr>
                      else Inr \<lparr>b_errors = b_errors cnes_result,
                                b_warnings = b_warnings cnes_result @ b_warnings tel_result,
                                b_info = b_info cnes_result @ b_info tel_result\<rparr>) of
                  Inl e \<Rightarrow> Inl e
                | Inr acc \<Rightarrow>
                    (case check_missingness L df cfg of
                       Inl e \<Rightarrow> Inl e
                     | Inr missingness_result \<Rightarrow>
                         Inr (check_result ''constraints''
                                (b_errors acc @ b_errors missingness_result)
                                (b_warnings acc @ b_warnings missingness_result)
                                (b_info acc @ b_info missingness_result))))))"

definition ConstraintsCheck :: "pylib \<Rightarrow> check" where
  "ConstraintsCheck L =
     \<lparr>check_name = ''constraints'',
      check_description =
        ''Valida formato de CNES, Telefone e outros campos com padr'' @ o_tilde @ ''es'',
      check_run = (\<lambda>cfg w. (ConstraintsCheck_run L (frame w) cfg, w))\<rparr>"

section \<open>checks/schema.py: the schema check\<close>

text \<open>
  One expected column in the first loop of \<open>SchemaCheck.run\<close>: found by its name, else by
  the first of its aliases that is a column of the frame; a finding when it is missing
  (an error if required, an info otherwise) or when it was found through an alias.
\<close>

definition schema_column ::
  "string list \<Rightarrow> ColumnConfig \<Rightarrow> buckets \<Rightarrow> buckets" where
  "schema_column df_cols col_config acc =
     (let col_name = column_name col_config;
          found_alias =
            (if col_name \<in> set df_cols then None
             else find (\<lambda>alias. alias \<in> set df_cols) (column_aliases col_config));
          found = (col_name \<in> set df_cols \<or> found_alias \<noteq> None)
      in if \<not> found \<and> column_required col_config then
           acc\<lparr>b_errors := b_errors acc @
             [create_error ''schema'' BLOCKER
                (''Coluna obrigat'' @ o_acute @ ''ria '' @ apostrophe @ col_name @ apostrophe
                   @ '' n'' @ a_tilde @ ''o encontrada'')
                None (Some col_name) (VStr col_name) VNone
                (Some [(''aliases_checked'', VList (map VStr (column_aliases col_config)))])]\<rparr>
         else if \<not> found \<and> \<not> column_required col_config then
           acc\<lparr>b_info := b_info acc @
             [create_error ''schema'' INFO
                (''Coluna opcional '' @ apostrophe @ col_name @ apostrophe
                   @ '' n'' @ a_tilde @ ''o encontrada'')
                None (Some col_name) VNone VNone None]\<rparr>
         else (case found_alias of
                 None \<Rightarrow> acc
               | Some alias \<Rightarrow>
                   if alias \<noteq> '''' then
                     acc\<lparr>b_info := b_info acc @
                       [create_error ''schema'' INFO
                          (''Coluna '' @ apostrophe @ col_name @ apostrophe
                             @ '' encontrada via alias '' @ apostrophe @ alias @ apostrophe)
                          None (Some col_name) VNone VNone
                          (Some [(''alias_used'', VStr alias)])]\<rparr>
                   else acc))"

text \<open>
  \<open>_check_column_types\<close>: one MINOR finding for each expected column that is a column of
  the frame and whose dtype is not among those its declared type stands for. Reading
  \<open>df[name].dtype\<close> raises when several columns have that name.
\<close>

definition type_mapping :: "(string \<times> string list) list" where
  "type_mapping =
     [(''string'', [''object'', ''string'']),
      (''float'', [''float64'', ''float32'', ''float'']),
      (''int'', [''int64'', ''int32'', ''int'']),
      (''bool'', [''bool''])]"

fun check_column_types :: "DataFrame \<Rightarrow> ColumnConfig list \<Rightarrow> exn + ValidationError list" where
  "check_column_types df [] = Inr []"
| "check_column_types df (col_config # rest) =
     (if column_name col_config \<notin> set (df_columns df) then check_column_types df rest
      else (case df_getitem df (column_name col_config) of
              Inl e \<Rightarrow> Inl e
            | Inr (SeveralColumns cols) \<Rightarrow> Inl no_dtype
            | Inr (OneColumn s) \<Rightarrow>
                (case check_column_types df rest of
                   Inl e \<Rightarrow> Inl e
                 | Inr type_errors \<Rightarrow>
                     Inr (if series_dtype s
                            \<notin> set (dict_get type_mapping (column_type col_config)
                                     [column_type col_config])
                          then create_error ''schema'' MINOR
                                 (''Tipo de '' @ apostrophe @ column_name col_config @ apostrophe
                                    @ '' '' @ e_acute @ '' '' @ apostrophe @ series_dtype s
                                    @ apostrophe @ '', esperado '' @ apostrophe
                                    @ column_type col_config @ apostrophe)
                                 None (Some (column_name col_config))
                                 (VStr (column_type col_config)) (VStr (series_dtype s)) None
                               # type_errors
                          else type_errors))))"

text \<open>
  \<open>SchemaCheck.run\<close>: the expected columns, the columns of the frame that are neither an
  expected name nor an alias (sorted, in one info finding), the column types as warnings;
  then the closing statements.
\<close>

definition SchemaCheck_run :: "pylib \<Rightarrow> DataFrame \<Rightarrow> ManifestConfig \<Rightarrow> exn + ValidationResult" where
  "SchemaCheck_run L df cfg =
     (let acc = foldl (\<lambda>acc col_config. schema_column (df_columns df) col_config acc)
                  empty_buckets (columns cfg);
          expected_names =
            concat (map (\<lambda>c. column_name c # column_aliases c) (columns cfg));
          unexpected = sort (remdups (filter (\<lambda>c. c \<notin> set expected_names) (df_columns df)));
          info =
            (if unexpected \<noteq> [] then
               b_info acc @
                 [create_error ''schema'' INFO
                    (''Colunas n'' @ a_tilde @ ''o documentadas encontradas: ''
                       @ py_str L (VList (map VStr unexpected)))
                    None None VNone VNone
                    (Some [(''unexpected_columns'', VList (map VStr unexpected))])]
             else b_info acc)
      in case check_column_types df (columns cfg) of
           Inl e \<Rightarrow> Inl e
         | Inr type_errors \<Rightarrow>
             Inr (check_result ''schema'' (b_errors acc) (b_warnings acc @ type_errors) info))"

definition SchemaCheck :: "pylib \<Rightarrow> check" where
  "SchemaCheck L =
     \<lparr>check_name = ''schema'',
      check_description = ''Valida presen'' @ c_cedilla @ ''a e tipos de colunas esperadas'',
      check_run = (\<lambda>cfg w. (SchemaCheck_run L (frame w) cfg, w))\<rparr>"

section \<open>Invariants of the severity counts\<close>

text \<open>
  Every severity name has a count that is not negative; and one table of counts is
  below another when each severity name has a count in both, the second at least the
  first.
\<close>

definition counts_ok :: "(string \<rightharpoonup> int) \<Rightarrow> bool" where
  "counts_ok c = (\<forall>s. \<exists>n. c (Severity_value s) = Some n \<and> 0 \<le> n)"

definition counts_le :: "(string \<rightharpoonup> int) \<Rightarrow> (string \<rightharpoonup> int) \<Rightarrow> bool" where
  "counts_le c c' = (\<forall>s. \<exists>n m. c (Severity_value s) = Some n \<and> c' (Severity_value s) = Some m \<and> n \<le> m)"

section \<open>Concrete inputs\<close>

text \<open>
  The inputs on which the statements below are evaluated. The library instance never
  finds a regular-expression match; it is used only with patterns and strings on which
  \<open>re.match\<close> finds none.
\<close>

definition example_lib :: pylib where
  "example_lib =
     \<lparr>re_match = (\<lambda>p s. Inr False), py_repr = (\<lambda>v. ''...''),
      format_exc = (\<lambda>e. ''Traceback (most recent call last): '' @ exn_type e),
      format_percent = (\<lambda>x. ''...''), series_str = (\<lambda>xs. ''...'')\<rparr>"

text \<open>A check that passes with no finding, one that fails with one error, one whose \<open>run\<close>
  raises, and one that empties the frame in place (\<open>df.drop(df.index, inplace=True)\<close>)
  before it passes.\<close>

definition passing_check :: "string \<Rightarrow> check" where
  "passing_check n =
     \<lparr>check_name = n, check_description = '''',
      check_run = (\<lambda>cfg w. (Inr (ValidationResult_init n True [] [] []), w))\<rparr>"

definition failing_check :: "string \<Rightarrow> check" where
  "failing_check n =
     \<lparr>check_name = n, check_description = '''',
      check_run = (\<lambda>cfg w.
        (Inr (ValidationResult_init n False
                [Obj (create_error n MAJOR ''bad'' None None VNone VNone None)] [] []), w))\<rparr>"

definition raising_check :: "string \<Rightarrow> check" where
  "raising_check n =
     \<lparr>check_name = n, check_description = '''',
      check_run = (\<lambda>cfg w. (Inl (ValueError ''boom''), w))\<rparr>"

definition dropping_check :: "string \<Rightarrow> check" where
  "dropping_check n =
     \<lparr>check_name = n, check_description = '''',
      check_run = (\<lambda>cfg w.
        (Inr (ValidationResult_init n True [] [] []),
         w\<lparr>frame := \<lparr>df_index = [],
                       df_series = map (\<lambda>s. s\<lparr>series_values := []\<rparr>) (df_series (frame w))\<rparr>\<rparr>))\<rparr>"

definition example_config :: ManifestConfig where
  "example_config =
     \<lparr>input_file = ''data.xlsx'', source_type = ''excel'', sheet_name = None, columns = [],
      constraints = [], controlled_vocab = [], geospatial = None, cross_field = [],
      uniqueness_columns = [], missingness = [], reports_dir = ''reports'',
      fu_to_state = [], fu_to_region = []\<rparr>"

text \<open>A frame of two rows and one column, and the state a run starts in.\<close>

definition example_frame :: DataFrame where
  "example_frame =
     \<lparr>df_index = [0, 1],
      df_series = [\<lparr>series_name = ''CNES'', series_dtype = ''object'',
                    series_values = [CStr ''12345'', CStr ''abc'']\<rparr>]\<rparr>"

definition example_world :: world where
  "example_world = \<lparr>frame = example_frame, wall = 0, perf = 0\<rparr>"

text \<open>A runner over the example configuration.\<close>

definition example_runner :: "check list \<Rightarrow> string list \<Rightarrow> ValidationRunner" where
  "example_runner cs skip = \<lparr>config = example_config, checks = cs, skip_checks = skip\<rparr>"

text \<open>A report over given results.\<close>

definition example_report :: "ValidationResult list \<Rightarrow> ValidationReport" where
  "example_report rs =
     \<lparr>rep_timestamp = 0, rep_manifest_path = '''', rep_data_file = ''data.xlsx'',
      rep_row_count = 2, rep_column_count = 1, rep_results = rs, rep_data_quality = [],
      rep_duration_seconds = 0\<rparr>"

text \<open>
  A manifest constraint on another column whose severity is not one of the four names,
  and a one-row frame whose value does not match its pattern.
\<close>

definition example_constraint :: ConstraintConfig where
  "example_constraint =
     \<lparr>constraint_type = ''string'', constraint_pattern = Some ''^[A-Z]+$'',
      constraint_min_length = None, constraint_max_length = None,
      constraint_strip_chars = None, constraint_allow_empty = False,
      constraint_allow_special_values = [], constraint_severity = ''CRITICAL''\<rparr>"

definition constraint_config :: ManifestConfig where
  "constraint_config = example_config\<lparr>constraints := [(''Municipio'', example_constraint)]\<rparr>"

definition municipio_frame :: DataFrame where
  "municipio_frame =
     \<lparr>df_index = [0],
      df_series = [\<lparr>series_name = ''Municipio'', series_dtype = ''object'',
                    series_values = [CStr ''abc'']\<rparr>]\<rparr>"

text \<open>A manifest that expects the columns CNES and Lat, both required.\<close>

definition schema_config :: ManifestConfig where
  "schema_config =
     example_config\<lparr>columns :=
       [\<lparr>column_name = ''CNES'', column_required = True, column_type = ''string'',
         column_aliases = []\<rparr>,
        \<lparr>column_name = ''Lat'', column_required = True, column_type = ''float'',
         column_aliases = []\<rparr>]\<rparr>"

section \<open>Properties of the severity scale\<close>

lemma list_index_Severity_order:
  "list_index Severity_order s = Some (Severity_rank s)"
  by (cases s) (simp_all add: Severity_order_def)

lemma Severity_lt_rank:
  "Severity_lt s t = Inr (Severity_rank s < Severity_rank t)"
  by (simp add: Severity_lt_def list_index_Severity_order)

lemma Severity_rank_inj: "Severity_rank s = Severity_rank t \<Longrightarrow> s = t"
  by (cases s; cases t) simp_all

lemma insert_by_severity_total:
  "\<exists>zs. insert_by_severity key x ys = Inr zs"
  by (induction ys) (auto simp: Severity_lt_rank)

lemma insert_by_severity_mset:
  "insert_by_severity key x ys = Inr zs \<Longrightarrow> mset zs = add_mset x (mset ys)"
  by (induction ys arbitrary: zs)
     (auto simp: Severity_lt_rank split: sum.splits if_splits)

lemma insert_by_severity_set:
  "insert_by_severity key x ys = Inr zs \<Longrightarrow> set zs = insert x (set ys)"
  using insert_by_severity_mset [of key x ys zs]
  by (metis set_mset_add_mset_insert set_mset_mset)

lemma insert_by_severity_sorted:
  "insert_by_severity key x ys = Inr zs \<Longrightarrow>
   sorted (map (\<lambda>a. Severity_rank (key a)) ys) \<Longrightarrow>
   sorted (map (\<lambda>a. Severity_rank (key a)) zs)"
proof (induction ys arbitrary: zs)
  case Nil
  then show ?case by auto
next
  case (Cons y ys)
  show ?case
  proof (cases "Severity_rank (key y) < Severity_rank (key x)")
    case True
    then obtain ws where ws: "insert_by_severity key x ys = Inr ws" and zs: "zs = y # ws"
      using Cons.prems(1) by (auto simp: Severity_lt_rank split: sum.splits)
    have "sorted (map (\<lambda>a. Severity_rank (key a)) ws)"
      using Cons.IH [OF ws] Cons.prems(2) by simp
    then show ?thesis
      using zs True Cons.prems(2) insert_by_severity_set [OF ws] by auto
  next
    case False
    then have "zs = x # y # ys"
      using Cons.prems(1) by (auto simp: Severity_lt_rank)
    then show ?thesis
      using False Cons.prems(2) by auto
  qed
qed

lemma sorted_by_severity_total:
  "\<exists>ys. sorted_by_severity key xs = Inr ys"
proof (induction xs)
  case Nil
  then show ?case by simp
next
  case (Cons x xs)
  then obtain ys where "sorted_by_severity key xs = Inr ys" by blast
  then show ?case
    using insert_by_severity_total [of key x ys] by simp
qed

lemma sorted_by_severity_mset:
  "sorted_by_severity key xs = Inr ys \<Longrightarrow> mset ys = mset xs"
  by (induction xs arbitrary: ys)
     (auto split: sum.splits dest: insert_by_severity_mset)

lemma sorted_by_severity_sorted:
  "sorted_by_severity key xs = Inr ys \<Longrightarrow> sorted (map (\<lambda>a. Severity_rank (key a)) ys)"
  by (induction xs arbitrary: ys)
     (auto split: sum.splits dest: insert_by_severity_sorted)

lemma sorted_by_severity_positions:
  assumes "sorted_by_severity key xs = Inr ys"
    and "i < length ys" and "j < length ys"
    and "Severity_rank (key (ys ! i)) < Severity_rank (key (ys ! j))"
  shows "i < j"
proof (rule ccontr)
  assume "\<not> i < j"
  then have "j \<le> i" by simp
  then have "map (\<lambda>a. Severity_rank (key a)) ys ! j \<le> map (\<lambda>a. Severity_rank (key a)) ys ! i"
    using sorted_by_severity_sorted [OF assms(1)] assms(2)
    by (simp add: sorted_iff_nth_mono)
  then show False
    using assms(2,3,4) by simp
qed

text \<open>
  Claim C5. \<open>Severity.__lt__\<close> never raises and is a strict total order with
  INFO < MINOR < MAJOR < BLOCKER: of two distinct severities exactly one is less than
  the other, no severity is less than itself, the relation is transitive, and sorting
  any list by a severity key returns a permutation of the list in which every element
  of a strictly lower severity stands before every element of a strictly higher one.
\<close>

theorem Severity_strict_total_order:
  "Severity_lt INFO MINOR = Inr True \<and> Severity_lt MINOR MAJOR = Inr True
   \<and> Severity_lt MAJOR BLOCKER = Inr True
   \<and> (\<exists>b. Severity_lt s t = Inr b)
   \<and> Severity_lt s s = Inr False
   \<and> (s \<noteq> t \<longrightarrow> (Severity_lt s t = Inr True) \<noteq> (Severity_lt t s = Inr True))
   \<and> (Severity_lt s t = Inr True \<and> Severity_lt t u = Inr True \<longrightarrow> Severity_lt s u = Inr True)
   \<and> (\<exists>ys. sorted_by_severity key xs = Inr ys \<and> mset ys = mset xs
        \<and> (\<forall>i j. i < length ys \<and> j < length ys
               \<and> Severity_lt (key (ys ! i)) (key (ys ! j)) = Inr True \<longrightarrow> i < j))"
proof -
  have c1: "Severity_lt INFO MINOR = Inr True"
    and c2: "Severity_lt MINOR MAJOR = Inr True"
    and c3: "Severity_lt MAJOR BLOCKER = Inr True"
    by (simp_all add: Severity_lt_rank)
  have total: "\<exists>b. Severity_lt s t = Inr b"
    by (simp add: Severity_lt_rank)
  have irrefl: "Severity_lt s s = Inr False"
    by (simp add: Severity_lt_rank)
  have "Severity_rank s \<noteq> Severity_rank t" if "s \<noteq> t"
    using that Severity_rank_inj by blast
  then have distinct: "s \<noteq> t \<longrightarrow> (Severity_lt s t = Inr True) \<noteq> (Severity_lt t s = Inr True)"
    by (auto simp: Severity_lt_rank)
  have trans: "Severity_lt s t = Inr True \<and> Severity_lt t u = Inr True \<longrightarrow> Severity_lt s u = Inr True"
    by (simp add: Severity_lt_rank)
  obtain ys where ys: "sorted_by_severity key xs = Inr ys"
    using sorted_by_severity_total by blast
  have pos: "\<forall>i j. i < length ys \<and> j < length ys
      \<and> Severity_lt (key (ys ! i)) (key (ys ! j)) = Inr True \<longrightarrow> i < j"
    using sorted_by_severity_positions [OF ys] by (simp add: Severity_lt_rank)
  have sortp: "\<exists>ys. sorted_by_severity key xs = Inr ys \<and> mset ys = mset xs
        \<and> (\<forall>i j. i < length ys \<and> j < length ys
               \<and> Severity_lt (key (ys ! i)) (key (ys ! j)) = Inr True \<longrightarrow> i < j)"
    using ys sorted_by_severity_mset [OF ys] pos by (intro exI [of _ ys] conjI)
  show ?thesis
    by (intro conjI c1 c2 c3 total irrefl distinct trans sortp)
qed

theorem Severity_strict_total_order_witness:
  "MINOR \<noteq> BLOCKER
   \<and> Severity_lt MINOR BLOCKER = Inr True \<and> Severity_lt BLOCKER MINOR = Inr False
   \<and> Severity_lt MINOR MINOR = Inr False
   \<and> sorted_by_severity id [MAJOR, INFO, BLOCKER, INFO, MINOR]
       = Inr [INFO, INFO, MINOR, MAJOR, BLOCKER]"
proof -
  note t = Severity_strict_total_order
    [of MINOR BLOCKER BLOCKER id "[MAJOR, INFO, BLOCKER, INFO, MINOR]"]
  have ne: "MINOR \<noteq> BLOCKER"
    by simp
  have lt: "Severity_lt MINOR BLOCKER = Inr True" and gt: "Severity_lt BLOCKER MINOR = Inr False"
    by (simp_all add: Severity_lt_def Severity_order_def)
  have irrefl: "Severity_lt MINOR MINOR = Inr False"
    using t by (elim conjE)
  have ev: "sorted_by_severity id [MAJOR, INFO, BLOCKER, INFO, MINOR]
      = Inr [INFO, INFO, MINOR, MAJOR, BLOCKER]"
    by (simp add: Severity_lt_def Severity_order_def)
  show ?thesis
    by (intro conjI ne lt gt irrefl ev)
qed

section \<open>Properties of the runner\<close>

lemma run_checks_executions:
  "run_checks L cfg skip cs acc w =
     (acc @ map (execution_result L cfg) (executions cfg skip cs w), final_world cfg skip cs w)"
proof (induction cs arbitrary: acc w)
  case Nil
  then show ?case by simp
next
  case (Cons c cs)
  show ?case
  proof (cases "check_name c \<in> set skip")
    case True
    then show ?thesis using Cons.IH by simp
  next
    case False
    obtain out w' where t: "timed_run c cfg w = (out, w')"
      by (cases "timed_run c cfg w")
    show ?thesis
      using False t Cons.IH
      by (cases out) (simp_all add: execution_result_def)
  qed
qed

lemma executions_checks:
  "map fst (executions cfg skip cs w) = filter (\<lambda>c. check_name c \<notin> set skip) cs"
  by (induction cs arbitrary: w) simp_all

lemma run_results:
  "rep_results (fst (run L R w)) =
     map (execution_result L (config R)) (executions (config R) (skip_checks R) (checks R) w)"
  by (simp add: run_def run_checks_executions)

lemma run_final_world:
  "snd (run L R w) = final_world (config R) (skip_checks R) (checks R) w"
  by (simp add: run_def run_checks_executions)

lemma run_counts:
  "rep_row_count (fst (run L R w)) = df_len (frame (snd (run L R w)))
   \<and> rep_column_count (fst (run L R w)) = length (df_columns (frame (snd (run L R w))))"
  by (simp add: run_def run_checks_executions)

lemma timed_run_passing_check:
  "timed_run (passing_check n) cfg w = (Inr (ValidationResult_init n True [] [] []), w)"
  by (simp add: timed_run_def passing_check_def ValidationResult_init_def)

lemma timed_run_raising_check:
  "timed_run (raising_check n) cfg w = (Inl (ValueError ''boom''), w)"
  by (simp add: timed_run_def raising_check_def)

lemma timed_run_failing_check:
  "timed_run (failing_check n) cfg w =
     (Inr (ValidationResult_init n False
             [Obj (create_error n MAJOR ''bad'' None None VNone VNone None)] [] []), w)"
  by (simp add: timed_run_def failing_check_def ValidationResult_init_def)

lemma check_name_fixtures:
  "check_name (passing_check n) = n" "check_name (raising_check n) = n"
  "check_name (failing_check n) = n" "check_name (dropping_check n) = n"
  by (simp_all add: passing_check_def raising_check_def failing_check_def dropping_check_def)

lemma example_runner_simps:
  "config (example_runner cs skip) = example_config"
  "checks (example_runner cs skip) = cs"
  "skip_checks (example_runner cs skip) = skip"
  by (simp_all add: example_runner_def)

text \<open>
  Claim C1. In a run, the checks that are not skipped are executed one after the other in
  registration order, whatever each of them does, and the report holds exactly one result
  per execution, in that order. Where the timed execution returns, the result is the one
  returned. Where it raises, the result is the fault result: the check's name as
  category, \<open>passed = False\<close>, an errors bucket of exactly one finding of severity
  \<open>BLOCKER\<close> whose details hold the exception's type name and the traceback text, and
  empty warnings and info buckets.
\<close>

theorem run_fault_isolation:
  "let xs = executions (config R) (skip_checks R) (checks R) w;
       results = rep_results (fst (run L R w))
   in map fst xs = filter (\<lambda>c. check_name c \<notin> set (skip_checks R)) (checks R)
      \<and> length results = length xs
      \<and> (\<forall>i < length xs.
            (case fst (timed_run (fst (xs ! i)) (config R) (snd (xs ! i))) of
               Inr result \<Rightarrow> results ! i = result
             | Inl e \<Rightarrow>
                 results ! i = fault_result L (fst (xs ! i)) e
                 \<and> vr_category (results ! i) = check_name (fst (xs ! i))
                 \<and> vr_passed (results ! i) = False
                 \<and> vr_errors (results ! i) =
                     [Dict [(''severity'', VStr ''BLOCKER''),
                            (''message'',
                               VStr (''Erro na execu'' @ c_cedilla @ a_tilde @ ''o do check: ''
                                     @ exn_str e)),
                            (''details'',
                               VDict [(''exception'', VStr (exn_type e)),
                                      (''traceback'', VStr (format_exc L e))])]]
                 \<and> map finding_severity (vr_errors (results ! i)) = [VStr ''BLOCKER'']
                 \<and> vr_warnings (results ! i) = []
                 \<and> vr_info (results ! i) = []))"
proof -
  define xs where "xs = executions (config R) (skip_checks R) (checks R) w"
  define results where "results = rep_results (fst (run L R w))"
  have res: "results = map (execution_result L (config R)) xs"
    by (simp add: results_def xs_def run_results)
  have order: "map fst xs = filter (\<lambda>c. check_name c \<notin> set (skip_checks R)) (checks R)"
    by (simp add: xs_def executions_checks)
  have len: "length results = length xs"
    by (simp add: res)
  have each: "case fst (timed_run (fst (xs ! i)) (config R) (snd (xs ! i))) of
               Inr result \<Rightarrow> results ! i = result
             | Inl e \<Rightarrow>
                 results ! i = fault_result L (fst (xs ! i)) e
                 \<and> vr_category (results ! i) = check_name (fst (xs ! i))
                 \<and> vr_passed (results ! i) = False
                 \<and> vr_errors (results ! i) =
                     [Dict [(''severity'', VStr ''BLOCKER''),
                            (''message'',
                               VStr (''Erro na execu'' @ c_cedilla @ a_tilde @ ''o do check: ''
                                     @ exn_str e)),
                            (''details'',
                               VDict [(''exception'', VStr (exn_type e)),
                                      (''traceback'', VStr (format_exc L e))])]]
                 \<and> map finding_severity (vr_errors (results ! i)) = [VStr ''BLOCKER'']
                 \<and> vr_warnings (results ! i) = []
                 \<and> vr_info (results ! i) = []"
    if "i < length xs" for i
  proof -
    have "results ! i = execution_result L (config R) (xs ! i)"
      using that by (simp add: res)
    then show ?thesis
      by (simp add: execution_result_def fault_result_def ValidationResult_init_def
          finding_severity_def dict_get_def split: sum.splits)
  qed
  show ?thesis
    unfolding Let_def xs_def [symmetric] results_def [symmetric]
    using order len each by blast
qed

theorem run_fault_isolation_witness:
  "map vr_category (rep_results (fst (run example_lib
       (example_runner [passing_check ''a'', raising_check ''b'', passing_check ''c''] [])
       example_world))) = [''a'', ''b'', ''c'']
   \<and> map vr_passed (rep_results (fst (run example_lib
       (example_runner [passing_check ''a'', raising_check ''b'', passing_check ''c''] [])
       example_world))) = [True, False, True]
   \<and> rep_results (fst (run example_lib
       (example_runner [passing_check ''a'', raising_check ''b'', passing_check ''c''] [])
       example_world)) ! 1
      = fault_result example_lib (raising_check ''b'') (ValueError ''boom'')
   \<and> vr_warnings (rep_results (fst (run example_lib
       (example_runner [passing_check ''a'', raising_check ''b'', passing_check ''c''] [])
       example_world)) ! 1) = []"
proof -
  define R where "R = example_runner [passing_check ''a'', raising_check ''b'', passing_check ''c''] []"
  define results where "results = rep_results (fst (run example_lib R example_world))"
  have xs: "executions (config R) (skip_checks R) (checks R) example_world =
      [(passing_check ''a'', example_world), (raising_check ''b'', example_world),
       (passing_check ''c'', example_world)]"
    by (simp add: R_def example_runner_simps check_name_fixtures
        timed_run_passing_check timed_run_raising_check)
  note t = run_fault_isolation [of R example_world example_lib,
      unfolded Let_def xs results_def [symmetric]]
  note t1 = t [THEN conjunct2, THEN conjunct2, rule_format, of 1]
  have second: "results ! 1 = fault_result example_lib (raising_check ''b'') (ValueError ''boom'')"
    and warn: "vr_warnings (results ! 1) = []"
    using t1 by (auto simp: timed_run_raising_check)
  have all: "results = [ValidationResult_init ''a'' True [] [] [],
      fault_result example_lib (raising_check ''b'') (ValueError ''boom''),
      ValidationResult_init ''c'' True [] [] []]"
    by (simp add: results_def run_results xs execution_result_def
        timed_run_passing_check timed_run_raising_check)
  have cats: "map vr_category results = [''a'', ''b'', ''c'']"
    by (simp add: all fault_result_def ValidationResult_init_def check_name_fixtures)
  have flags: "map vr_passed results = [True, False, True]"
    by (simp add: all fault_result_def ValidationResult_init_def)
  show ?thesis
    unfolding R_def [symmetric] results_def [symmetric]
    by (intro conjI cats flags second warn)
qed

section \<open>Properties of the severity counts\<close>

lemma counts_le_refl: "counts_ok c \<Longrightarrow> counts_le c c"
  unfolding counts_ok_def counts_le_def by (meson order_refl)

lemma counts_le_trans: "counts_le a b \<Longrightarrow> counts_le b c \<Longrightarrow> counts_le a c"
  unfolding counts_le_def
proof
  fix s
  assume ab: "\<forall>s. \<exists>n m. a (Severity_value s) = Some n \<and> b (Severity_value s) = Some m \<and> n \<le> m"
    and bc: "\<forall>s. \<exists>n m. b (Severity_value s) = Some n \<and> c (Severity_value s) = Some m \<and> n \<le> m"
  from ab obtain n m where 1: "a (Severity_value s) = Some n" "b (Severity_value s) = Some m" "n \<le> m"
    by blast
  from bc obtain m' k where 2: "b (Severity_value s) = Some m'" "c (Severity_value s) = Some k" "m' \<le> k"
    by blast
  from 1 2 have "n \<le> k" by simp
  with 1 2 show "\<exists>n m. a (Severity_value s) = Some n \<and> c (Severity_value s) = Some m \<and> n \<le> m"
    by blast
qed

lemma counts_ok_bump:
  assumes ok: "counts_ok c" and up: "\<And>n. c k = Some n \<Longrightarrow> n \<le> v"
  shows "counts_ok (c(k \<mapsto> v))" and "counts_le c (c(k \<mapsto> v))"
proof -
  show "counts_ok (c(k \<mapsto> v))"
    unfolding counts_ok_def
  proof
    fix s
    from ok obtain n where n: "c (Severity_value s) = Some n" "0 \<le> n"
      unfolding counts_ok_def by blast
    show "\<exists>n. (c(k \<mapsto> v)) (Severity_value s) = Some n \<and> 0 \<le> n"
    proof (cases "Severity_value s = k")
      case True
      then show ?thesis using n up [of n] by simp
    next
      case False
      then show ?thesis using n by simp
    qed
  qed
  show "counts_le c (c(k \<mapsto> v))"
    unfolding counts_le_def
  proof
    fix s
    from ok obtain n where n: "c (Severity_value s) = Some n" "0 \<le> n"
      unfolding counts_ok_def by blast
    show "\<exists>n m. c (Severity_value s) = Some n \<and> (c(k \<mapsto> v)) (Severity_value s) = Some m \<and> n \<le> m"
    proof (cases "Severity_value s = k")
      case True
      then show ?thesis using n up [of n] by simp
    next
      case False
      then show ?thesis using n by simp
    qed
  qed
qed

lemma count_finding_ok:
  assumes ok: "counts_ok c"
  shows "\<exists>c'. count_finding L c f = Inr c' \<and> counts_ok c' \<and> counts_le c c'"
proof (cases "\<exists>s. finding_severity f = VSev s")
  case True
  then obtain s where s: "finding_severity f = VSev s" by blast
  from ok obtain n where n: "c (Severity_value s) = Some n" "0 \<le> n"
    unfolding counts_ok_def by blast
  have "count_finding L c f = Inr (c(Severity_value s \<mapsto> n + 1))"
    using s n by (simp add: count_finding_def)
  moreover have "counts_ok (c(Severity_value s \<mapsto> n + 1))" "counts_le c (c(Severity_value s \<mapsto> n + 1))"
    using counts_ok_bump [OF ok, of "Severity_value s" "n + 1"] n by simp_all
  ultimately show ?thesis by blast
next
  case False
  define k where "k = py_str L (finding_severity f)"
  define v where "v = (case c k of None \<Rightarrow> 0 | Some n \<Rightarrow> n) + 1"
  have eq: "count_finding L c f = Inr (c(k \<mapsto> v))"
    using False by (cases "finding_severity f") (simp_all add: count_finding_def k_def v_def)
  have "n \<le> v" if "c k = Some n" for n
    using that by (simp add: v_def)
  then have "counts_ok (c(k \<mapsto> v))" "counts_le c (c(k \<mapsto> v))"
    using counts_ok_bump [OF ok, of k v] by simp_all
  with eq show ?thesis by blast
qed

text \<open>A dict-shaped finding whose severity entry is the string BLOCKER adds one to that count.\<close>

lemma count_finding_blocker_dict:
  assumes ok: "counts_ok c" and f: "finding_severity f = VStr ''BLOCKER''"
  shows "\<exists>c' n. count_finding L c f = Inr c' \<and> counts_ok c' \<and> counts_le c c'
           \<and> c ''BLOCKER'' = Some n \<and> c' ''BLOCKER'' = Some (n + 1)"
proof -
  from ok obtain n where n: "c (Severity_value BLOCKER) = Some n" "0 \<le> n"
    unfolding counts_ok_def by blast
  have eq: "count_finding L c f = Inr (c(''BLOCKER'' \<mapsto> n + 1))"
    using f n by (simp add: count_finding_def py_str_def)
  have "counts_ok (c(''BLOCKER'' \<mapsto> n + 1))" "counts_le c (c(''BLOCKER'' \<mapsto> n + 1))"
    using counts_ok_bump [OF ok, of "''BLOCKER''" "n + 1"] n by simp_all
  with eq n show ?thesis by simp
qed

lemma count_findings_ok:
  "counts_ok c \<Longrightarrow> \<exists>c'. count_findings L c fs = Inr c' \<and> counts_ok c' \<and> counts_le c c'"
proof (induction fs arbitrary: c)
  case Nil
  then show ?case by (simp add: counts_le_refl)
next
  case (Cons f fs)
  from count_finding_ok [OF Cons.prems, of L f]
  obtain c1 where 1: "count_finding L c f = Inr c1" "counts_ok c1" "counts_le c c1" by blast
  from Cons.IH [OF 1(2)]
  obtain c2 where 2: "count_findings L c1 fs = Inr c2" "counts_ok c2" "counts_le c1 c2" by blast
  show ?case
    using 1 2 counts_le_trans [OF 1(3) 2(3)] by simp
qed

lemma counts_le_blocker:
  "counts_le c c' \<Longrightarrow> \<exists>n m. c ''BLOCKER'' = Some n \<and> c' ''BLOCKER'' = Some m \<and> n \<le> m"
  unfolding counts_le_def using Severity_value.simps(1) by metis

lemma count_result_ok:
  assumes ok: "counts_ok c"
  shows "\<exists>c'. count_results L c [r] = Inr c' \<and> counts_ok c' \<and> counts_le c c'"
proof -
  from count_findings_ok [OF ok, of L "vr_errors r"]
  obtain c1 where 1: "count_findings L c (vr_errors r) = Inr c1" "counts_ok c1" "counts_le c c1" by blast
  from count_findings_ok [OF 1(2), of L "vr_warnings r"]
  obtain c2 where 2: "count_findings L c1 (vr_warnings r) = Inr c2" "counts_ok c2" "counts_le c1 c2" by blast
  from count_findings_ok [OF 2(2), of L "vr_info r"]
  obtain c3 where 3: "count_findings L c2 (vr_info r) = Inr c3" "counts_ok c3" "counts_le c2 c3" by blast
  have "counts_le c c3"
    using counts_le_trans [OF counts_le_trans [OF 1(3) 2(3)] 3(3)] .
  then show ?thesis using 1 2 3 by simp
qed

lemma count_results_Cons:
  "count_results L c (r # rs) =
     (case count_results L c [r] of Inl e \<Rightarrow> Inl e | Inr c' \<Rightarrow> count_results L c' rs)"
  by (simp split: sum.splits)

lemma count_results_ok:
  "counts_ok c \<Longrightarrow> \<exists>c'. count_results L c rs = Inr c' \<and> counts_ok c' \<and> counts_le c c'"
proof (induction rs arbitrary: c)
  case Nil
  then show ?case by (simp add: counts_le_refl)
next
  case (Cons r rs)
  from count_result_ok [OF Cons.prems, of L r]
  obtain c1 where 1: "count_results L c [r] = Inr c1" "counts_ok c1" "counts_le c c1" by blast
  from Cons.IH [OF 1(2)]
  obtain c2 where 2: "count_results L c1 rs = Inr c2" "counts_ok c2" "counts_le c1 c2" by blast
  have "count_results L c (r # rs) = Inr c2"
    by (simp only: count_results_Cons [of L c r rs] 1(1) 2(1) sum.case)
  then show ?case
    using 2(2) counts_le_trans [OF 1(3) 2(3)] by blast
qed

text \<open>A result whose first error is a BLOCKER dict raises the BLOCKER count.\<close>

lemma count_result_blocker:
  assumes ok: "counts_ok c"
    and r: "vr_errors r = f # fs" "finding_severity f = VStr ''BLOCKER''"
  shows "\<exists>c' n m. count_results L c [r] = Inr c' \<and> counts_ok c'
           \<and> c ''BLOCKER'' = Some n \<and> c' ''BLOCKER'' = Some m \<and> n < m"
proof -
  from count_finding_blocker_dict [OF ok r(2), of L]
  obtain c0 n where 0: "count_finding L c f = Inr c0" "counts_ok c0"
    "c ''BLOCKER'' = Some n" "c0 ''BLOCKER'' = Some (n + 1)" by blast
  from count_findings_ok [OF 0(2), of L fs]
  obtain c1 where 1: "count_findings L c0 fs = Inr c1" "counts_ok c1" "counts_le c0 c1" by blast
  from count_findings_ok [OF 1(2), of L "vr_warnings r"]
  obtain c2 where 2: "count_findings L c1 (vr_warnings r) = Inr c2" "counts_ok c2" "counts_le c1 c2" by blast
  from count_findings_ok [OF 2(2), of L "vr_info r"]
  obtain c3 where 3: "count_findings L c2 (vr_info r) = Inr c3" "counts_ok c3" "counts_le c2 c3" by blast
  have "counts_le c0 c3"
    using counts_le_trans [OF counts_le_trans [OF 1(3) 2(3)] 3(3)] .
  from counts_le_blocker [OF this] 0(4)
  obtain m where m: "c3 ''BLOCKER'' = Some m" "n + 1 \<le> m" by auto
  have "count_results L c [r] = Inr c3"
    using r(1) 0(1) 1(1) 2(1) 3(1) by simp
  then show ?thesis using 3(2) 0(3) m by auto
qed

lemma count_results_blocker:
  assumes "counts_ok c" and "r \<in> set rs"
    and "vr_errors r = f # fs" and "finding_severity f = VStr ''BLOCKER''"
  shows "\<exists>c' n m. count_results L c rs = Inr c' \<and> counts_ok c'
           \<and> c ''BLOCKER'' = Some n \<and> c' ''BLOCKER'' = Some m \<and> n < m"
  using assms(1,2)
proof (induction rs arbitrary: c)
  case Nil
  then show ?case by simp
next
  case (Cons a rs)
  show ?case
  proof (cases "a = r")
    case True
    from count_result_blocker [OF Cons.prems(1) assms(3,4), of L]
    obtain c1 n m where 1: "count_results L c [r] = Inr c1" "counts_ok c1"
      "c ''BLOCKER'' = Some n" "c1 ''BLOCKER'' = Some m" "n < m" by blast
    from count_results_ok [OF 1(2), of L rs]
    obtain c2 where 2: "count_results L c1 rs = Inr c2" "counts_ok c2" "counts_le c1 c2" by blast
    from counts_le_blocker [OF 2(3)] 1(4)
    obtain k where k: "c2 ''BLOCKER'' = Some k" "m \<le> k" by auto
    have "count_results L c (a # rs) = Inr c2"
      unfolding True by (simp only: count_results_Cons [of L c r rs] 1(1) 2(1) sum.case)
    then show ?thesis using 2(2) 1(3,5) k by auto
  next
    case False
    then have mem: "r \<in> set rs" using Cons.prems(2) by simp
    from count_result_ok [OF Cons.prems(1), of L a]
    obtain c1 where 1: "count_results L c [a] = Inr c1" "counts_ok c1" "counts_le c c1" by blast
    from Cons.IH [OF 1(2) mem]
    obtain c2 n m where 2: "count_results L c1 rs = Inr c2" "counts_ok c2"
      "c1 ''BLOCKER'' = Some n" "c2 ''BLOCKER'' = Some m" "n < m" by blast
    from counts_le_blocker [OF 1(3)] 2(3)
    obtain k where k: "c ''BLOCKER'' = Some k" "k \<le> n" by auto
    have "count_results L c (a # rs) = Inr c2"
      by (simp only: count_results_Cons [of L c a rs] 1(1) 2(1) sum.case)
    then show ?thesis using 2(2,4,5) k by auto
  qed
qed

lemma counts_ok_initial: "counts_ok initial_counts"
  unfolding counts_ok_def
proof
  fix s
  show "\<exists>n. initial_counts (Severity_value s) = Some n \<and> 0 \<le> n"
    by (cases s) (simp_all add: initial_counts_def Severity_members_def)
qed

lemma initial_counts_blocker: "initial_counts ''BLOCKER'' = Some 0"
  by (simp add: initial_counts_def Severity_members_def)

section \<open>The report's verdict and the skip list\<close>

lemma py_all_iff: "py_all bs = (\<forall>b \<in> set bs. b)"
  by (induction bs) auto

text \<open>
  Claim C2. The passed flag of a report is the conjunction of the passed flags of its
  results: it is true exactly when every result passed, so one failing result makes it
  false whatever the others are, and a report with no result has passed.
\<close>

theorem report_passed_is_conjunction:
  "passed rep = (\<forall>r \<in> set (rep_results rep). vr_passed r)
   \<and> ((\<exists>r \<in> set (rep_results rep). \<not> vr_passed r) \<longrightarrow> \<not> passed rep)
   \<and> (rep_results rep = [] \<longrightarrow> passed rep)
   \<and> passed (fst (run L R w)) = (\<forall>r \<in> set (rep_results (fst (run L R w))). vr_passed r)"
  by (auto simp: passed_def py_all_iff)

theorem report_passed_is_conjunction_witness:
  "passed (example_report [ValidationResult_init ''a'' True [] [] [],
      ValidationResult_init ''b'' True [] [] [],
      ValidationResult_init ''c'' False [Obj (create_error ''c'' MAJOR ''bad'' None None VNone VNone None)] [] []])
     = False
   \<and> passed (example_report [ValidationResult_init ''a'' True [] [] [],
      ValidationResult_init ''b'' True [] [] []]) = True
   \<and> passed (example_report []) = True"
proof -
  define bad where "bad = ValidationResult_init ''c'' False
      [Obj (create_error ''c'' MAJOR ''bad'' None None VNone VNone None)] [] []"
  define ok where "ok = (\<lambda>n. ValidationResult_init n True [] [] [])"
  have flags: "\<not> vr_passed bad" "vr_passed (ok n)" for n
    by (simp_all add: bad_def ok_def ValidationResult_init_def)
  have res: "rep_results (example_report rs) = rs" for rs
    by (simp add: example_report_def)
  have 1: "passed (example_report [ok ''a'', ok ''b'', bad]) = False"
    using report_passed_is_conjunction [of "example_report [ok ''a'', ok ''b'', bad]"] flags
    by (simp add: res)
  have 2: "passed (example_report [ok ''a'', ok ''b'']) = True"
    using report_passed_is_conjunction [of "example_report [ok ''a'', ok ''b'']"] flags
    by (simp add: res)
  have 3: "passed (example_report []) = True"
    using report_passed_is_conjunction [of "example_report []"]
    by (simp add: res)
  show ?thesis
    using 1 2 3 unfolding bad_def ok_def by (intro conjI)
qed

lemma run_checks_skip_filter:
  "run_checks L cfg skip cs acc w =
     run_checks L cfg [] (filter (\<lambda>c. check_name c \<notin> set skip) cs) acc w"
proof (induction cs arbitrary: acc w)
  case Nil
  then show ?case by simp
next
  case (Cons c cs)
  show ?case
  proof (cases "check_name c \<in> set skip")
    case True
    then show ?thesis using Cons.IH by simp
  next
    case False
    obtain out w' where t: "timed_run c cfg w = (out, w')"
      by (cases "timed_run c cfg w")
    show ?thesis
      using False t Cons.IH by (cases out) simp_all
  qed
qed

text \<open>
  Claim C4. A registered check whose name is in the skip list is omitted entirely: a run
  is the same, in its report and in the state it leaves, as the run of a runner in which
  the checks with a skipped name are not registered at all. The results are what the
  executions of the checks with no skipped name add, in registration order, so no skipped
  check has an entry, and the number of results is the number of registered checks less
  the number of registered checks whose names are in the skip list.
\<close>

theorem run_skip_semantics:
  "run L R w =
     run L (R\<lparr>checks := filter (\<lambda>c. check_name c \<notin> set (skip_checks R)) (checks R),
               skip_checks := []\<rparr>) w
   \<and> rep_results (fst (run L R w)) =
       map (execution_result L (config R))
         (executions (config R) (skip_checks R) (checks R) w)
   \<and> length (rep_results (fst (run L R w))) =
       length (checks R) - length (filter (\<lambda>c. check_name c \<in> set (skip_checks R)) (checks R))
   \<and> map fst (executions (config R) (skip_checks R) (checks R) w) =
       filter (\<lambda>c. check_name c \<notin> set (skip_checks R)) (checks R)
   \<and> (\<forall>x \<in> set (executions (config R) (skip_checks R) (checks R) w).
         check_name (fst x) \<notin> set (skip_checks R))"
proof -
  define xs where "xs = executions (config R) (skip_checks R) (checks R) w"
  have same: "run L R w =
     run L (R\<lparr>checks := filter (\<lambda>c. check_name c \<notin> set (skip_checks R)) (checks R),
               skip_checks := []\<rparr>) w"
    by (simp add: run_def run_checks_skip_filter [of L "config R" "skip_checks R" "checks R"])
  have res: "rep_results (fst (run L R w)) = map (execution_result L (config R)) xs"
    by (simp add: run_results xs_def)
  have order: "map fst xs = filter (\<lambda>c. check_name c \<notin> set (skip_checks R)) (checks R)"
    by (simp add: xs_def executions_checks)
  have "length (rep_results (fst (run L R w))) = length (map fst xs)"
    by (simp add: res)
  also have "\<dots> = length (filter (\<lambda>c. check_name c \<notin> set (skip_checks R)) (checks R))"
    by (simp only: order)
  also have "\<dots> = length (checks R)
      - length (filter (\<lambda>c. check_name c \<in> set (skip_checks R)) (checks R))"
    using sum_length_filter_compl [of "\<lambda>c. check_name c \<in> set (skip_checks R)" "checks R"]
    by simp
  finally have len: "length (rep_results (fst (run L R w))) = length (checks R)
      - length (filter (\<lambda>c. check_name c \<in> set (skip_checks R)) (checks R))" .
  have none: "\<forall>x \<in> set xs. check_name (fst x) \<notin> set (skip_checks R)"
  proof
    fix x
    assume "x \<in> set xs"
    then have "fst x \<in> set (map fst xs)" by simp
    then show "check_name (fst x) \<notin> set (skip_checks R)" unfolding order by simp
  qed
  show ?thesis
    unfolding xs_def [symmetric]
    by (intro conjI same res len order none)
qed

theorem run_skip_semantics_witness:
  "run example_lib
       (example_runner [passing_check ''a'', dropping_check ''b'', passing_check ''c''] [''b''])
       example_world
     = run example_lib (example_runner [passing_check ''a'', passing_check ''c''] [])
         example_world
   \<and> map vr_category (rep_results (fst (run example_lib
       (example_runner [passing_check ''a'', dropping_check ''b'', passing_check ''c''] [''b''])
       example_world))) = [''a'', ''c'']
   \<and> length (rep_results (fst (run example_lib
       (example_runner [passing_check ''a'', dropping_check ''b'', passing_check ''c''] [''b''])
       example_world))) = 2
   \<and> rep_row_count (fst (run example_lib
       (example_runner [passing_check ''a'', dropping_check ''b'', passing_check ''c''] [''b''])
       example_world)) = 2"
proof -
  define R where
    "R = example_runner [passing_check ''a'', dropping_check ''b'', passing_check ''c''] [''b'']"
  define R' where "R' = example_runner [passing_check ''a'', passing_check ''c''] []"
  have filtered: "R\<lparr>checks := filter (\<lambda>c. check_name c \<notin> set (skip_checks R)) (checks R),
      skip_checks := []\<rparr> = R'"
    by (simp add: R_def R'_def example_runner_def check_name_fixtures)
  have same: "run example_lib R example_world = run example_lib R' example_world"
    using run_skip_semantics [of example_lib R example_world] unfolding filtered
    by (elim conjE)
  have xs: "executions (config R') (skip_checks R') (checks R') example_world =
      [(passing_check ''a'', example_world), (passing_check ''c'', example_world)]"
    by (simp add: R'_def example_runner_simps check_name_fixtures timed_run_passing_check)
  have cats: "map vr_category (rep_results (fst (run example_lib R' example_world))) = [''a'', ''c'']"
    by (simp add: run_results xs execution_result_def timed_run_passing_check
        ValidationResult_init_def)
  have len: "length (rep_results (fst (run example_lib R' example_world))) = 2"
    by (simp add: run_results xs)
  have fw: "final_world (config R') (skip_checks R') (checks R') example_world = example_world"
    by (simp add: R'_def example_runner_simps check_name_fixtures timed_run_passing_check)
  have "rep_row_count (fst (run example_lib R' example_world)) = df_len (frame example_world)"
    using run_counts [of example_lib R' example_world]
    by (simp only: run_final_world fw)
  then have rows: "rep_row_count (fst (run example_lib R' example_world)) = 2"
    by (simp add: df_len_def example_world_def example_frame_def)
  show ?thesis
    unfolding R_def [symmetric] R'_def [symmetric] same
    by (intro conjI refl cats len rows)
qed

section \<open>The counts of the report and its blockers\<close>

lemma final_world_preserved:
  "(\<forall>x \<in> set (executions cfg skip cs w). f (snd (timed_run (fst x) cfg (snd x))) = f (snd x))
   \<Longrightarrow> f (final_world cfg skip cs w) = f w"
  by (induction cs arbitrary: w) (simp_all split: if_splits)

lemma timed_run_dropping_check:
  "timed_run (dropping_check n) cfg w =
     (Inr (ValidationResult_init n True [] [] [] \<lparr>vr_duration_seconds := 0\<rparr>),
      w\<lparr>frame := \<lparr>df_index = [],
                    df_series = map (\<lambda>s. s\<lparr>series_values := []\<rparr>) (df_series (frame w))\<rparr>\<rparr>)"
  by (simp add: timed_run_def dropping_check_def)

text \<open>
  Claim C8, as stated, fails: the counts of the report are measured when the report is
  built, after the checks ran. A check that empties the two-row example frame in place
  gives a report with a row count of 0.
\<close>

theorem run_counts_counterexample:
  "df_len (frame example_world) = 2
   \<and> rep_row_count (fst (run example_lib (example_runner [dropping_check ''d''] []) example_world)) = 0
   \<and> rep_row_count (fst (run example_lib (example_runner [dropping_check ''d''] []) example_world))
       \<noteq> df_len (frame example_world)"
  by (simp add: run_def example_runner_simps check_name_fixtures timed_run_dropping_check
      df_len_def example_world_def example_frame_def)

text \<open>
  Claim C8, amended. The row and column counts of the report are those of the frame in
  the state the run ends in, after the last check. They are the counts the frame had
  when the run began whenever no executed check changes the number of rows or of columns
  of the frame.
\<close>

theorem run_counts_after_checks:
  "rep_row_count (fst (run L R w)) = df_len (frame (snd (run L R w)))
   \<and> rep_column_count (fst (run L R w)) = length (df_columns (frame (snd (run L R w))))
   \<and> snd (run L R w) = final_world (config R) (skip_checks R) (checks R) w
   \<and> ((\<forall>x \<in> set (executions (config R) (skip_checks R) (checks R) w).
          df_len (frame (snd (timed_run (fst x) (config R) (snd x)))) = df_len (frame (snd x))
          \<and> length (df_columns (frame (snd (timed_run (fst x) (config R) (snd x)))))
              = length (df_columns (frame (snd x))))
        \<longrightarrow> rep_row_count (fst (run L R w)) = df_len (frame w)
            \<and> rep_column_count (fst (run L R w)) = length (df_columns (frame w)))"
proof -
  let ?xs = "executions (config R) (skip_checks R) (checks R) w"
  have rows: "rep_row_count (fst (run L R w)) = df_len (frame w)"
    if "\<forall>x \<in> set ?xs. df_len (frame (snd (timed_run (fst x) (config R) (snd x))))
          = df_len (frame (snd x))"
    using final_world_preserved [of "config R" "skip_checks R" "checks R" w "\<lambda>v. df_len (frame v)"] that
    by (simp add: run_counts run_final_world)
  have cols: "rep_column_count (fst (run L R w)) = length (df_columns (frame w))"
    if "\<forall>x \<in> set ?xs. length (df_columns (frame (snd (timed_run (fst x) (config R) (snd x)))))
          = length (df_columns (frame (snd x)))"
    using final_world_preserved [of "config R" "skip_checks R" "checks R" w
        "\<lambda>v. length (df_columns (frame v))"] that
    by (simp add: run_counts run_final_world)
  show ?thesis
    using rows cols run_counts [of L R w] run_final_world [of L R w] by blast
qed

theorem run_counts_after_checks_witness:
  "rep_row_count (fst (run example_lib
       (example_runner [passing_check ''a'', raising_check ''b''] []) example_world)) = 2
   \<and> rep_column_count (fst (run example_lib
       (example_runner [passing_check ''a'', raising_check ''b''] []) example_world)) = 1"
proof -
  define R where "R = example_runner [passing_check ''a'', raising_check ''b''] []"
  have xs: "executions (config R) (skip_checks R) (checks R) example_world =
      [(passing_check ''a'', example_world), (raising_check ''b'', example_world)]"
    by (simp add: R_def example_runner_simps check_name_fixtures
        timed_run_passing_check timed_run_raising_check)
  have keep: "\<forall>x \<in> set (executions (config R) (skip_checks R) (checks R) example_world).
          df_len (frame (snd (timed_run (fst x) (config R) (snd x)))) = df_len (frame (snd x))
          \<and> length (df_columns (frame (snd (timed_run (fst x) (config R) (snd x)))))
              = length (df_columns (frame (snd x)))"
    unfolding xs by (simp add: timed_run_passing_check timed_run_raising_check)
  have start: "df_len (frame example_world) = 2" "length (df_columns (frame example_world)) = 1"
    by (simp_all add: df_len_def df_columns_def example_world_def example_frame_def)
  have "rep_row_count (fst (run example_lib R example_world)) = df_len (frame example_world)
      \<and> rep_column_count (fst (run example_lib R example_world))
          = length (df_columns (frame example_world))"
    using run_counts_after_checks [of example_lib R example_world] keep by blast
  then show ?thesis
    unfolding R_def [symmetric] start by simp
qed

text \<open>
  Claim C10. Counting by severity never raises, and when the timed execution of any
  executed check raises, the report of the run has blockers: the fault finding is a dict
  whose severity entry is the string \<open>BLOCKER\<close>, and the count keeps it under that key.
\<close>

theorem run_fault_has_blockers:
  "x \<in> set (executions (config R) (skip_checks R) (checks R) w) \<Longrightarrow>
   fst (timed_run (fst x) (config R) (snd x)) = Inl e \<Longrightarrow>
   has_blockers L (fst (run L R w)) = Inr True
   \<and> (\<exists>counts n. count_by_severity L (fst (run L R w)) = Inr counts
         \<and> counts ''BLOCKER'' = Some n \<and> 0 < n)"
proof -
  assume x: "x \<in> set (executions (config R) (skip_checks R) (checks R) w)"
    and e: "fst (timed_run (fst x) (config R) (snd x)) = Inl e"
  define r where "r = fault_result L (fst x) e"
  have "execution_result L (config R) x = r"
    using e by (simp add: execution_result_def r_def)
  then have mem: "r \<in> set (rep_results (fst (run L R w)))"
    using x unfolding run_results by force
  have errs: "vr_errors r =
      Dict [(''severity'', VStr (Severity_value BLOCKER)),
              (''message'',
                 VStr (''Erro na execu'' @ c_cedilla @ a_tilde @ ''o do check: '' @ exn_str e)),
              (''details'',
                 VDict [(''exception'', VStr (exn_type e)),
                        (''traceback'', VStr (format_exc L e))])] # []"
    by (simp add: r_def fault_result_def ValidationResult_init_def)
  have sev: "finding_severity (Dict [(''severity'', VStr (Severity_value BLOCKER)),
              (''message'',
                 VStr (''Erro na execu'' @ c_cedilla @ a_tilde @ ''o do check: '' @ exn_str e)),
              (''details'',
                 VDict [(''exception'', VStr (exn_type e)),
                        (''traceback'', VStr (format_exc L e))])]) = VStr ''BLOCKER''"
    by (simp add: finding_severity_def dict_get_def)
  from count_results_blocker [OF counts_ok_initial mem errs sev, of L]
  obtain c' n m where c: "count_results L initial_counts (rep_results (fst (run L R w))) = Inr c'"
    "initial_counts ''BLOCKER'' = Some n" "c' ''BLOCKER'' = Some m" "n < m"
    by blast
  have "0 < m"
    using c(2,4) initial_counts_blocker by simp
  then show ?thesis
    using c(1,3) by (simp add: has_blockers_def has_severity_def count_by_severity_def)
qed

theorem run_fault_has_blockers_witness:
  "has_blockers example_lib (fst (run example_lib
       (example_runner [passing_check ''a'', raising_check ''b''] []) example_world)) = Inr True"
proof -
  define R where "R = example_runner [passing_check ''a'', raising_check ''b''] []"
  have xs: "executions (config R) (skip_checks R) (checks R) example_world =
      [(passing_check ''a'', example_world), (raising_check ''b'', example_world)]"
    by (simp add: R_def example_runner_simps check_name_fixtures
        timed_run_passing_check timed_run_raising_check)
  have mem: "(raising_check ''b'', example_world)
      \<in> set (executions (config R) (skip_checks R) (checks R) example_world)"
    unfolding xs by simp
  have raises: "fst (timed_run (fst (raising_check ''b'', example_world)) (config R)
      (snd (raising_check ''b'', example_world))) = Inl (ValueError ''boom'')"
    by (simp add: timed_run_raising_check)
  show ?thesis
    unfolding R_def [symmetric]
    using run_fault_has_blockers [OF mem raises, of example_lib] by (elim conjE)
qed

section \<open>Severity strings of the manifest\<close>

lemma Severity_has_member_iff:
  "Severity_has_member n = (n = ''BLOCKER'' \<or> n = ''MAJOR'' \<or> n = ''MINOR'' \<or> n = ''INFO'')"
  by (auto simp: Severity_has_member_def Severity_members_def)

lemma Severity_getitem_unknown:
  "\<not> Severity_has_member n \<Longrightarrow> Severity_getitem n = Inl (KeyError n)"
  by (simp add: Severity_has_member_iff Severity_getitem_def)

lemma Severity_getitem_value: "Severity_getitem (Severity_value s) = Inr s"
  by (cases s) (simp_all add: Severity_getitem_def)

lemma cnes_severity_fallback:
  "cnes_severity None = MAJOR"
  "\<not> Severity_has_member (constraint_severity c) \<Longrightarrow> cnes_severity (Some c) = MAJOR"
  "cnes_severity (Some (c\<lparr>constraint_severity := Severity_value s\<rparr>)) = s"
  by (cases s; simp add: cnes_severity_def Let_def Severity_has_member_iff Severity_getitem_def
      ConstraintConfig_hasattr_def)+

lemma missingness_severity_fallback:
  "\<not> Severity_has_member n \<Longrightarrow> missingness_severity (VStr n) = Inr INFO"
  by (simp add: missingness_severity_def)

lemma validate_pattern_unknown_severity:
  assumes "df_getitem df col_name = Inr (OneColumn col)"
    and "pattern_scan L constraint (series_items df col) = Inr invalid"
    and "invalid \<noteq> []"
    and "\<not> Severity_has_member (constraint_severity constraint)"
  shows "validate_pattern L df col_name constraint = Inl (KeyError (constraint_severity constraint))"
  using assms by (simp add: validate_pattern_def Severity_getitem_unknown)

lemma municipio_items:
  "df_getitem municipio_frame ''Municipio''
     = Inr (OneColumn \<lparr>series_name = ''Municipio'', series_dtype = ''object'',
                       series_values = [CStr ''abc'']\<rparr>)"
  "series_items municipio_frame
     \<lparr>series_name = ''Municipio'', series_dtype = ''object'', series_values = [CStr ''abc'']\<rparr>
     = [(0, CStr ''abc'')]"
  "df_columns municipio_frame = [''Municipio'']"
  by (simp_all add: df_getitem_def municipio_frame_def series_items_def df_len_def cell_at_def
      df_columns_def)

lemma municipio_scan:
  "pattern_scan example_lib example_constraint [(0, CStr ''abc'')] = Inr [0]"
  by (simp add: isna_def example_constraint_def re_match_opt_def example_lib_def cell_str_def)

text \<open>
  Claim C6 at a manifest constraint on the column Municipio whose severity string is
  CRITICAL, with one row that does not match the pattern: \<open>_validate_pattern\<close> raises
  \<open>KeyError\<close> and so does the run of the constraints check, where the claim expects the
  finding to carry the default MAJOR. The same string falls back to MAJOR in
  \<open>_validate_cnes\<close> and to INFO in \<open>_check_missingness\<close>.
\<close>

theorem pattern_severity_fallback_missing:
  "validate_pattern example_lib municipio_frame ''Municipio'' example_constraint
     = Inl (KeyError ''CRITICAL'')
   \<and> ConstraintsCheck_run example_lib municipio_frame constraint_config
     = Inl (KeyError ''CRITICAL'')
   \<and> cnes_severity (Some example_constraint) = MAJOR
   \<and> missingness_severity (VStr ''CRITICAL'') = Inr INFO"
proof -
  have nm: "\<not> Severity_has_member (constraint_severity example_constraint)"
    by (simp add: Severity_has_member_iff example_constraint_def)
  have sev: "constraint_severity example_constraint = ''CRITICAL''"
    by (simp add: example_constraint_def)
  have vp: "validate_pattern example_lib municipio_frame ''Municipio'' example_constraint
     = Inl (KeyError ''CRITICAL'')"
    using validate_pattern_unknown_severity [OF municipio_items(1), of example_lib example_constraint "[0]"]
      municipio_scan nm
    by (simp add: municipio_items(2) sev)
  have pat: "constraint_pattern example_constraint = Some ''^[A-Z]+$''"
    by (simp add: example_constraint_def)
  have cons: "constraints constraint_config = [(''Municipio'', example_constraint)]"
    by (simp add: constraint_config_def)
  have run: "ConstraintsCheck_run example_lib municipio_frame constraint_config
     = Inl (KeyError ''CRITICAL'')"
    by (simp add: ConstraintsCheck_run_def municipio_items(3) cons vp pat
        ConstraintConfig_hasattr_def)
  have cn: "cnes_severity (Some example_constraint) = MAJOR"
    using cnes_severity_fallback(2) [OF nm] .
  have ms: "missingness_severity (VStr ''CRITICAL'') = Inr INFO"
    using missingness_severity_fallback [of "''CRITICAL''"] nm sev by simp
  show ?thesis
    by (intro conjI vp run cn ms)
qed

section \<open>Running without a manifest; the sample of row positions\<close>

text \<open>
  Claim C7 at its input, no configuration: \<open>ValidationRunner(config=None)\<close> raises
  \<open>TypeError\<close> in \<open>__init__\<close>, because \<open>ManifestConfig()\<close> lacks its required
  \<open>input_file\<close>; no runner is built and no check runs. \<open>run_validation\<close> without a
  manifest path raises the same error before the data file is read.
\<close>

theorem runner_without_config_raises:
  "ValidationRunner_init ALL_CHECKS None chks skip
     = Inl (TypeError (''ManifestConfig.__init__() missing 1 required positional argument: ''
                 @ apostrophe @ ''input_file'' @ apostrophe))
   \<and> run_validation L ALL_CHECKS load_manifest load_dataframe file_path None skip w
     = Inl (TypeError (''ManifestConfig.__init__() missing 1 required positional argument: ''
                 @ apostrophe @ ''input_file'' @ apostrophe))
   \<and> exn_type (TypeError (''ManifestConfig.__init__() missing 1 required positional argument: ''
                 @ apostrophe @ ''input_file'' @ apostrophe)) = ''TypeError''"
  by (simp add: ValidationRunner_init_def run_validation_def ManifestConfig_init_def TypeError_def)

lemma validate_rows_finding:
  assumes "validate_rows name df condition_func error_message severity column = Inr errs"
    and "e \<in> set errs"
  shows "\<exists>invalid. invalid_rows condition_func (df_rows df) = Inr invalid
           \<and> invalid \<noteq> []
           \<and> errs = [e]
           \<and> ve_row_indices e = Some (take 100 invalid)
           \<and> ve_message e = error_message @ '' ('' @ str_nat (length invalid) @ '' linhas)''
           \<and> ve_details e = None"
  using assms
  by (auto simp: validate_rows_def create_error_def split: sum.splits if_splits)

lemma validate_cnes_finding:
  assumes "validate_cnes L df cfg = Inr b"
    and "e \<in> set (b_errors b @ b_warnings b)"
  shows "\<exists>col invalid special sample.
           df_getitem df ''CNES'' = Inr (OneColumn col)
           \<and> cnes_scan L (cnes_special_values cfg) (cnes_strip_chars cfg) (cnes_pattern cfg)
                (series_items df col) = Inr (invalid, special)
           \<and> invalid \<noteq> []
           \<and> df_loc_strs L df col (take 5 invalid) = Inr sample
           \<and> ve_row_indices e = Some (take 50 invalid)
           \<and> ve_message e = ''CNES com formato inv'' @ a_acute @ ''lido (''
                @ str_nat (length invalid) @ '' registros)''
           \<and> ve_details e =
                Some [(''pattern'', VStr (cnes_pattern cfg)),
                      (''sample_invalid'', VList (map VStr sample))]"
  using assms
  by (auto simp: validate_cnes_def create_error_def Let_def
      split: sum.splits if_splits prod.splits selection.splits)

lemma str_nat_2: "str_nat (Suc (Suc 0)) = ''2''"
  by (simp add: str_nat.simps [of "Suc (Suc 0)"] digits_def)

lemma example_frame_rows:
  "df_rows example_frame = [(0, [(''CNES'', CStr ''12345'')]), (1, [(''CNES'', CStr ''abc'')])]"
  by (simp add: df_rows_def example_frame_def df_len_def cell_at_def upt_rec)

lemma example_frame_cnes:
  "df_getitem example_frame ''CNES''
     = Inr (OneColumn \<lparr>series_name = ''CNES'', series_dtype = ''object'',
                       series_values = [CStr ''12345'', CStr ''abc'']\<rparr>)"
  "series_items example_frame
     \<lparr>series_name = ''CNES'', series_dtype = ''object'',
      series_values = [CStr ''12345'', CStr ''abc'']\<rparr>
     = [(0, CStr ''12345''), (1, CStr ''abc'')]"
  by (simp_all add: df_getitem_def example_frame_def series_items_def df_len_def cell_at_def upt_rec)

lemma example_config_cnes:
  "config_constraint example_config ''CNES'' = None"
  "cnes_special_values example_config = [''Not informed'', ''Not informed1-4'']"
  "cnes_strip_chars example_config = [CHR 0x09, CHR 0x20, CHR 0x0A]"
  "cnes_pattern example_config = ''^'' @ backslash @ ''d{6,8}$''"
  by (simp_all add: config_constraint_def example_config_def cnes_special_values_def
      cnes_strip_chars_def cnes_pattern_def)

lemma example_cnes_scan:
  "cnes_scan example_lib (cnes_special_values example_config) (cnes_strip_chars example_config)
     (cnes_pattern example_config) [(0, CStr ''12345''), (1, CStr ''abc'')]
   = Inr ([0, 1], [])"
  by (simp add: example_config_cnes isna_def cell_str_def clean_cnes_def py_remove_char_def
      py_strip_def py_isspace_def example_lib_def)

lemma example_loc_strs:
  "df_loc_strs example_lib example_frame
     \<lparr>series_name = ''CNES'', series_dtype = ''object'',
      series_values = [CStr ''12345'', CStr ''abc'']\<rparr> [0, 1]
   = Inr [''12345'', ''abc'']"
  by (simp add: df_loc_str_def example_frame_cnes(2) cell_str_def)

lemma example_validate_cnes:
  "validate_cnes example_lib example_frame example_config
     = Inr \<lparr>b_errors =
              [create_error ''constraints'' MAJOR
                 (''CNES com formato inv'' @ a_acute @ ''lido (2 registros)'')
                 (Some [0, 1]) (Some ''CNES'') VNone VNone
                 (Some [(''pattern'', VStr (cnes_pattern example_config)),
                        (''sample_invalid'', VList [VStr ''12345'', VStr ''abc''])])],
            b_warnings = [], b_info = []\<rparr>"
  by (simp add: validate_cnes_def example_frame_cnes example_config_cnes(1) example_cnes_scan
      example_loc_strs cnes_severity_fallback(1) str_nat_2
      del: cnes_scan.simps df_loc_strs.simps)

text \<open>
  Claim C9 at the two-row example frame, with a condition no row meets and with CNES
  values that do not match the pattern. The findings of \<open>validate_rows\<close> and of
  \<open>_validate_cnes\<close> carry the capped row positions, and the number of affected rows
  stands in their message only: the first has no details, the second details of the
  pattern and of sample values, where the claim expects the total count.
\<close>

theorem row_total_missing_from_details:
  "validate_rows ''constraints'' example_frame (\<lambda>row. Inr False) ''Linhas rejeitadas'' MAJOR None
     = Inr [\<lparr>ve_severity = MAJOR, ve_category = ''constraints'',
             ve_message = ''Linhas rejeitadas (2 linhas)'', ve_row_indices = Some [0, 1],
             ve_column = None, ve_expected = VNone, ve_actual = VNone, ve_details = None\<rparr>]
   \<and> validate_cnes example_lib example_frame example_config
     = Inr \<lparr>b_errors =
              [\<lparr>ve_severity = MAJOR, ve_category = ''constraints'',
                ve_message = ''CNES com formato inv'' @ a_acute @ ''lido (2 registros)'',
                ve_row_indices = Some [0, 1], ve_column = Some ''CNES'',
                ve_expected = VNone, ve_actual = VNone,
                ve_details =
                  Some [(''pattern'', VStr (cnes_pattern example_config)),
                        (''sample_invalid'', VList [VStr ''12345'', VStr ''abc''])]\<rparr>],
            b_warnings = [], b_info = []\<rparr>"
proof -
  have rows: "validate_rows ''constraints'' example_frame (\<lambda>row. Inr False)
      ''Linhas rejeitadas'' MAJOR None
     = Inr [\<lparr>ve_severity = MAJOR, ve_category = ''constraints'',
             ve_message = ''Linhas rejeitadas (2 linhas)'', ve_row_indices = Some [0, 1],
             ve_column = None, ve_expected = VNone, ve_actual = VNone, ve_details = None\<rparr>]"
    by (simp add: validate_rows_def example_frame_rows create_error_def str_nat_2)
  have cnes: "validate_cnes example_lib example_frame example_config
     = Inr \<lparr>b_errors =
              [\<lparr>ve_severity = MAJOR, ve_category = ''constraints'',
                ve_message = ''CNES com formato inv'' @ a_acute @ ''lido (2 registros)'',
                ve_row_indices = Some [0, 1], ve_column = Some ''CNES'',
                ve_expected = VNone, ve_actual = VNone,
                ve_details =
                  Some [(''pattern'', VStr (cnes_pattern example_config)),
                        (''sample_invalid'', VList [VStr ''12345'', VStr ''abc''])]\<rparr>],
            b_warnings = [], b_info = []\<rparr>"
    unfolding example_validate_cnes by (simp add: create_error_def)
  show ?thesis
    by (intro conjI rows cnes)
qed

section \<open>The passed flag of a result\<close>

lemma check_result_passed:
  "vr_passed (check_result name errors warnings info)
     = (vr_errors (check_result name errors warnings info) = [])"
  by (simp add: check_result_def ValidationResult_init_def)

lemma SchemaCheck_run_result:
  "SchemaCheck_run L df cfg = Inr r \<Longrightarrow> \<exists>es ws is. r = check_result ''schema'' es ws is"
  by (auto simp: SchemaCheck_run_def Let_def split: sum.splits)

lemma ConstraintsCheck_run_result:
  "ConstraintsCheck_run L df cfg = Inr r \<Longrightarrow> \<exists>es ws is. r = check_result ''constraints'' es ws is"
  unfolding ConstraintsCheck_run_def
  by (auto split: sum.splits)

lemma fault_result_passed:
  "vr_passed (fault_result L c e) = (vr_errors (fault_result L c e) = [])"
  by (simp add: fault_result_def ValidationResult_init_def)

lemma timed_run_passed:
  "(\<And>r0. fst (check_run c cfg w) = Inr r0 \<Longrightarrow> vr_passed r0 = (vr_errors r0 = [])) \<Longrightarrow>
   fst (timed_run c cfg w) = Inr r \<Longrightarrow> vr_passed r = (vr_errors r = [])"
  by (auto simp: timed_run_def Let_def split: prod.splits sum.splits)

lemma execution_result_passed:
  assumes "\<And>r0. fst (check_run c cfg w) = Inr r0 \<Longrightarrow> vr_passed r0 = (vr_errors r0 = [])"
  shows "vr_passed (execution_result L cfg (c, w)) = (vr_errors (execution_result L cfg (c, w)) = [])"
proof (cases "fst (timed_run c cfg w)")
  case (Inl e)
  then show ?thesis
    by (simp add: execution_result_def fault_result_passed)
next
  case (Inr r)
  then show ?thesis
    using timed_run_passed [of c cfg w r] assms by (simp add: execution_result_def)
qed

text \<open>
  Claim C3. In every result a check's \<open>run\<close> returns, and in the result the runner builds
  when a check raises, \<open>passed\<close> is true exactly when the errors bucket is empty. This
  holds for the closing statements that every \<open>run\<close> method of the suite ends with,
  whatever the three lists hold, for the geospatial check's early return, for the whole
  \<open>run\<close> of the schema check and of the constraints check whenever they return, for the
  fault result, and for what a run of the runner records for these two checks.
\<close>

theorem passed_iff_no_errors:
  "vr_passed (check_result name errors warnings info)
     = (vr_errors (check_result name errors warnings info) = [])
   \<and> vr_passed GeospatialCheck_no_coordinates = (vr_errors GeospatialCheck_no_coordinates = [])
   \<and> (SchemaCheck_run L df cfg = Inr r1 \<longrightarrow> vr_passed r1 = (vr_errors r1 = []))
   \<and> (ConstraintsCheck_run L df cfg = Inr r2 \<longrightarrow> vr_passed r2 = (vr_errors r2 = []))
   \<and> vr_passed (fault_result L c e) = (vr_errors (fault_result L c e) = [])
   \<and> vr_passed (execution_result L cfg (SchemaCheck L, w))
       = (vr_errors (execution_result L cfg (SchemaCheck L, w)) = [])
   \<and> vr_passed (execution_result L cfg (ConstraintsCheck L, w))
       = (vr_errors (execution_result L cfg (ConstraintsCheck L, w)) = [])"
proof -
  have schema: "vr_passed r = (vr_errors r = [])" if "SchemaCheck_run L d cfg = Inr r" for d r
    using SchemaCheck_run_result [OF that] check_result_passed by auto
  have cons: "vr_passed r = (vr_errors r = [])" if "ConstraintsCheck_run L d cfg = Inr r" for d r
    using ConstraintsCheck_run_result [OF that] check_result_passed by auto
  have geo: "vr_passed GeospatialCheck_no_coordinates = (vr_errors GeospatialCheck_no_coordinates = [])"
    by (simp add: GeospatialCheck_no_coordinates_def ValidationResult_init_def)
  have ex1: "vr_passed (execution_result L cfg (SchemaCheck L, w))
       = (vr_errors (execution_result L cfg (SchemaCheck L, w)) = [])"
    by (rule execution_result_passed) (simp add: SchemaCheck_def schema)
  have ex2: "vr_passed (execution_result L cfg (ConstraintsCheck L, w))
       = (vr_errors (execution_result L cfg (ConstraintsCheck L, w)) = [])"
    by (rule execution_result_passed) (simp add: ConstraintsCheck_def cons)
  show ?thesis
    using check_result_passed [of name errors warnings info] geo schema [of df r1] cons [of df r2]
      fault_result_passed [of L c e] ex1 ex2
    by (intro conjI impI)
qed


lemma example_frame_columns: "df_columns example_frame = [''CNES'']"
  by (simp add: df_columns_def example_frame_def)

lemma example_schema_run:
  "SchemaCheck_run example_lib example_frame schema_config
     = Inr (check_result ''schema''
         [create_error ''schema'' BLOCKER
            (''Coluna obrigat'' @ o_acute @ ''ria '' @ apostrophe @ ''Lat'' @ apostrophe
               @ '' n'' @ a_tilde @ ''o encontrada'')
            None (Some ''Lat'') (VStr ''Lat'') VNone
            (Some [(''aliases_checked'', VList [])])] [] [])"
  by (simp add: SchemaCheck_run_def schema_config_def example_config_def example_frame_columns
      schema_column_def empty_buckets_def Let_def example_frame_cnes(1) type_mapping_def
      dict_get_def)

lemma example_constraints_run:
  "ConstraintsCheck_run example_lib example_frame example_config
     = Inr (check_result ''constraints''
         [create_error ''constraints'' MAJOR
            (''CNES com formato inv'' @ a_acute @ ''lido (2 registros)'')
            (Some [0, 1]) (Some ''CNES'') VNone VNone
            (Some [(''pattern'', VStr (cnes_pattern example_config)),
                   (''sample_invalid'', VList [VStr ''12345'', VStr ''abc''])])] [] [])"
proof -
  have len: "df_len example_frame = 2"
    by (simp add: df_len_def example_frame_def)
  have nulls: "null_count_of example_frame
      \<lparr>series_name = ''CNES'', series_dtype = ''object'',
       series_values = [CStr ''12345'', CStr ''abc'']\<rparr> = 0"
    by (simp add: null_count_of_def example_frame_cnes(2) isna_def)
  have miss: "check_missingness example_lib example_frame example_config = Inr empty_buckets"
    by (simp add: check_missingness_def example_frame_columns example_frame_cnes(1)
        example_config_def dict_get_def py_number_def null_rate_of_def len nulls)
  have cons: "constraints example_config = []"
    by (simp add: example_config_def)
  show ?thesis
    by (simp add: ConstraintsCheck_run_def example_frame_columns example_validate_cnes cons miss
        empty_buckets_def)
qed

theorem passed_iff_no_errors_witness:
  "SchemaCheck_run example_lib example_frame schema_config
     = Inr (check_result ''schema''
         [create_error ''schema'' BLOCKER
            (''Coluna obrigat'' @ o_acute @ ''ria '' @ apostrophe @ ''Lat'' @ apostrophe
               @ '' n'' @ a_tilde @ ''o encontrada'')
            None (Some ''Lat'') (VStr ''Lat'') VNone
            (Some [(''aliases_checked'', VList [])])] [] [])
   \<and> vr_passed (check_result ''schema''
         [create_error ''schema'' BLOCKER
            (''Coluna obrigat'' @ o_acute @ ''ria '' @ apostrophe @ ''Lat'' @ apostrophe
               @ '' n'' @ a_tilde @ ''o encontrada'')
            None (Some ''Lat'') (VStr ''Lat'') VNone
            (Some [(''aliases_checked'', VList [])])] [] []) = False
   \<and> ConstraintsCheck_run example_lib example_frame example_config
     = Inr (check_result ''constraints''
         [create_error ''constraints'' MAJOR
            (''CNES com formato inv'' @ a_acute @ ''lido (2 registros)'')
            (Some [0, 1]) (Some ''CNES'') VNone VNone
            (Some [(''pattern'', VStr (cnes_pattern example_config)),
                   (''sample_invalid'', VList [VStr ''12345'', VStr ''abc''])])] [] [])
   \<and> vr_passed (check_result ''constraints''
         [create_error ''constraints'' MAJOR
            (''CNES com formato inv'' @ a_acute @ ''lido (2 registros)'')
            (Some [0, 1]) (Some ''CNES'') VNone VNone
            (Some [(''pattern'', VStr (cnes_pattern example_config)),
                   (''sample_invalid'', VList [VStr ''12345'', VStr ''abc''])])] [] []) = False"
proof -
  define r1 where "r1 = check_result ''schema''
         [create_error ''schema'' BLOCKER
            (''Coluna obrigat'' @ o_acute @ ''ria '' @ apostrophe @ ''Lat'' @ apostrophe
               @ '' n'' @ a_tilde @ ''o encontrada'')
            None (Some ''Lat'') (VStr ''Lat'') VNone
            (Some [(''aliases_checked'', VList [])])] [] []"
  define r2 where "r2 = check_result ''constraints''
         [create_error ''constraints'' MAJOR
            (''CNES com formato inv'' @ a_acute @ ''lido (2 registros)'')
            (Some [0, 1]) (Some ''CNES'') VNone VNone
            (Some [(''pattern'', VStr (cnes_pattern example_config)),
                   (''sample_invalid'', VList [VStr ''12345'', VStr ''abc''])])] [] []"
  have s: "SchemaCheck_run example_lib example_frame schema_config = Inr r1"
    unfolding r1_def by (rule example_schema_run)
  have c: "ConstraintsCheck_run example_lib example_frame example_config = Inr r2"
    unfolding r2_def by (rule example_constraints_run)
  have e1: "vr_errors r1 \<noteq> []"
    by (simp add: r1_def check_result_def ValidationResult_init_def)
  have e2: "vr_errors r2 \<noteq> []"
    by (simp add: r2_def check_result_def ValidationResult_init_def)
  have p1: "vr_passed r1 = False"
    using passed_iff_no_errors [of _ _ _ _ example_lib example_frame schema_config r1] s e1
    by blast
  have p2: "vr_passed r2 = False"
    using passed_iff_no_errors [of _ _ _ _ example_lib example_frame example_config _ r2] c e2
    by blast
  show ?thesis
    using s p1 c p2 unfolding r1_def r2_def by (intro conjI)
qed

end
